theory Spec2Isabelle
  imports Complex_Main
begin

section \<open>Data model\<close>

text \<open>
  The simulation core of the racing game lives in the \<^verbatim>\<open>GameCanvas\<close> component: the
  mutable \<^verbatim>\<open>gameState\<close> object, the per-frame function \<^verbatim>\<open>runGameLoop\<close> and
  \<^verbatim>\<open>finishRace\<close>. The post-race commentary is \<^verbatim>\<open>analyzeRacePerformance\<close> and its
  caller in the \<^verbatim>\<open>CrewChief\<close> component.

  JavaScript numbers are modelled as exact reals. The two places where the source
  produces a non-finite number are written out: \<^verbatim>\<open>minDistance\<close> starts at
  \<^verbatim>\<open>Infinity\<close> (here \<open>None\<close>), and the checkpoint section is the floor of a division
  by \<^verbatim>\<open>checkpointZone\<close>, which is zero for a track of fewer than four points (here
  \<open>None\<close>: neither \<^verbatim>\<open>NaN\<close> nor an infinity passes the range test that follows).
  Array indices, counters and the millisecond clock are integers.

  A record field is a constant of the theory, so the short field names of the source
  carry a prefix here: \<open>x\<close> and \<open>y\<close> of a point are \<open>pt_x\<close> and \<open>pt_y\<close>, the
  position and velocity of the car are \<open>carX\<close>, \<open>carZ\<close>, \<open>velX\<close> and \<open>velZ\<close>, the
  fields of a particle, of a skid mark and of the running lap figures start with
  \<open>p_\<close>, \<open>m_\<close> and \<open>ct_\<close>. The fields of a track and of a pod that only the display
  reads (identifier, name, colour, difficulty label) are left out, and so is the state
  of the head-up display.
\<close>

record point =
  pt_x :: real
  pt_y :: real

record trackData =
  points :: "point list"
  width :: real

record carConfig =
  acceleration :: real
  topSpeed :: real
  handling :: real

record car =
  carX :: real
  carZ :: real
  angle :: real
  velX :: real
  velZ :: real
  speed :: real
  drifting :: bool
  driftCharge :: real
  boostTimer :: real

record keys =
  ArrowUp :: bool
  ArrowDown :: bool
  ArrowLeft :: bool
  ArrowRight :: bool
  Shift :: bool

record particleData =
  p_id :: int
  p_x :: real
  p_y :: real
  p_z :: real
  p_vx :: real
  p_vy :: real
  p_vz :: real
  p_life :: real
  p_color :: string

record skidMarkData =
  m_id :: int
  m_x :: real
  m_z :: real
  m_opacity :: real
  m_angle :: real

record lapTelemetry =
  lapNumber :: int
  time :: real
  maxSpeed :: int
  averageSpeed :: real
  offTrackCount :: int
  collisions :: int

record currentTelemetry =
  ct_maxSpeed :: real
  ct_collisions :: int
  ct_offTrackFrames :: int

record gameState =
  car :: car
  keys :: keys
  particles :: "particleData list"
  skidMarks :: "skidMarkData list"
  laps :: int
  lapStartTime :: int
  checkpoints :: "bool list"
  telemetry :: "lapTelemetry list"
  currentTelemetry :: currentTelemetry
  particleIdCounter :: int

record gameSessionStats =
  totalLaps :: int
  bestLap :: "real option"
  st_telemetry :: "lapTelemetry list"
  timestamp :: string

datatype aiDifficulty = OFF | EASY | MEDIUM | HARD

datatype fault = TypeError | Rejected | LibraryError

section \<open>Library functions of the host language\<close>

text \<open>\<^verbatim>\<open>Math.atan2(y, x)\<close> on finite arguments, signed zeros aside.\<close>

definition atan2 :: "real \<Rightarrow> real \<Rightarrow> real" where
  "atan2 y x =
     (if 0 < x then arctan (y / x)
      else if x < 0 then (if 0 \<le> y then arctan (y / x) + pi else arctan (y / x) - pi)
      else if 0 < y then pi / 2
      else if y < 0 then - pi / 2
      else 0)"

text \<open>\<^verbatim>\<open>Math.round\<close>: the nearest integer, halves upwards.\<close>

definition mathRound :: "real \<Rightarrow> int" where
  "mathRound v = \<lfloor>v + 1 / 2\<rfloor>"

text \<open>
  \<^verbatim>\<open>Math.min(...xs)\<close>: the running minimum starts at \<^verbatim>\<open>Infinity\<close>, written
  \<open>None\<close>.
\<close>

definition mathMin :: "real list \<Rightarrow> real option" where
  "mathMin xs =
     foldl (\<lambda>acc v. case acc of None \<Rightarrow> Some v | Some a \<Rightarrow> Some (min a v)) None xs"

text \<open>
  Reading and writing an array of booleans by index. A read past the end gives
  \<^verbatim>\<open>undefined\<close>, which is falsy; a write past the end extends the array, the holes
  reading as falsy; \<^verbatim>\<open>fill(false)\<close> keeps the length.
\<close>

definition arrayGet :: "bool list \<Rightarrow> nat \<Rightarrow> bool" where
  "arrayGet xs i = (i < length xs \<and> xs ! i)"

definition arraySet :: "bool list \<Rightarrow> nat \<Rightarrow> bool \<Rightarrow> bool list" where
  "arraySet xs i v =
     (if i < length xs then xs[i := v]
      else xs @ replicate (i - length xs) False @ [v])"

definition arrayFill :: "bool list \<Rightarrow> bool \<Rightarrow> bool list" where
  "arrayFill xs v = map (\<lambda>_. v) xs"

section \<open>Session setup\<close>

text \<open>
  The initial \<^verbatim>\<open>gameState\<close> and the positioning effect that runs at mount. Both read
  \<^verbatim>\<open>track.points[0].x\<close>, which throws a \<^verbatim>\<open>TypeError\<close> on a track without points;
  a missing second point is replaced by one ten units to the right of the first. The
  width is not inspected. \<^verbatim>\<open>now\<close> is the value of \<^verbatim>\<open>Date.now()\<close> at setup.
\<close>

definition initGame :: "trackData \<Rightarrow> int \<Rightarrow> fault + gameState" where
  "initGame track now =
     (case points track of
        [] \<Rightarrow> Inl TypeError
      | startP # rest \<Rightarrow>
          let nextP = (case rest of
                         [] \<Rightarrow> \<lparr>pt_x = pt_x startP + 10, pt_y = pt_y startP\<rparr>
                       | q # _ \<Rightarrow> q);
              dx = pt_x nextP - pt_x startP;
              dy = pt_y nextP - pt_y startP
          in Inr \<lparr>car = \<lparr>carX = pt_x startP, carZ = pt_y startP, angle = atan2 dy dx,
                           velX = 0, velZ = 0, speed = 0, drifting = False,
                           driftCharge = 0, boostTimer = 0\<rparr>,
                   keys = \<lparr>ArrowUp = False, ArrowDown = False, ArrowLeft = False,
                            ArrowRight = False, Shift = False\<rparr>,
                   particles = [], skidMarks = [], laps = 0, lapStartTime = now,
                   checkpoints = [False, False, False, False], telemetry = [],
                   currentTelemetry =
                     \<lparr>ct_maxSpeed = 0, ct_collisions = 0, ct_offTrackFrames = 0\<rparr>,
                   particleIdCounter = 0\<rparr>)"

text \<open>
  The race view also draws the track when it mounts. \<^verbatim>\<open>TrackVisuals\<close> first has the 3D
  library build the curve through the points, the extruded road and the scenery along
  the curve, and then places the start gate at \<^verbatim>\<open>track.points[0]\<close>, turned towards
  \<^verbatim>\<open>track.points[1]\<close>. Here the second point is read without a substitute, so a
  track of one point throws a \<^verbatim>\<open>TypeError\<close>. The library is not part of the
  repository: \<open>geometry track\<close> is the fault it raises for the track, if any. The
  result is the position and the rotation of the gate.
\<close>

definition trackVisuals :: "(trackData \<Rightarrow> fault option) \<Rightarrow> trackData \<Rightarrow> fault + real \<times> real \<times> real" where
  "trackVisuals geometry track =
     (case geometry track of
        Some e \<Rightarrow> Inl e
      | None \<Rightarrow>
          (case points track of
             [] \<Rightarrow> Inl TypeError
           | p0 # rest \<Rightarrow>
               (case rest of
                  [] \<Rightarrow> Inl TypeError
                | p1 # _ \<Rightarrow>
                    Inr (pt_x p0, pt_y p0,
                         - atan2 (pt_y p1 - pt_y p0) (pt_x p1 - pt_x p0)))))"

text \<open>
  Mounting the race view: the initial state and the positioning effect of
  \<^verbatim>\<open>GameCanvas\<close>, then the scene with the track visuals. The steps of the simulation
  run only once the scene has mounted.
\<close>

definition mountRace :: "(trackData \<Rightarrow> fault option) \<Rightarrow> trackData \<Rightarrow> int \<Rightarrow> fault + gameState" where
  "mountRace geometry track now =
     (case initGame track now of
        Inl e \<Rightarrow> Inl e
      | Inr s \<Rightarrow>
          (case trackVisuals geometry track of
             Inl e \<Rightarrow> Inl e
           | Inr gate \<Rightarrow> Inr s))"

section \<open>One simulation step\<close>

subsection \<open>Closest track point\<close>

text \<open>\<^verbatim>\<open>dist < minDistance\<close>, with \<open>None\<close> for \<^verbatim>\<open>Infinity\<close>.\<close>

definition belowMin :: "real \<Rightarrow> real option \<Rightarrow> bool" where
  "belowMin d m = (case m of None \<Rightarrow> True | Some v \<Rightarrow> d < v)"

fun scanPoints :: "point list \<Rightarrow> int \<Rightarrow> real \<Rightarrow> real \<Rightarrow> real option \<times> int \<Rightarrow> real option \<times> int" where
  "scanPoints [] i cx cz acc = acc"
| "scanPoints (p # ps) i cx cz (minDistance, closestPointIndex) =
     (let dist = sqrt ((cx - pt_x p)\<^sup>2 + (cz - pt_y p)\<^sup>2)
      in if belowMin dist minDistance
         then scanPoints ps (i + 1) cx cz (Some dist, i)
         else scanPoints ps (i + 1) cx cz (minDistance, closestPointIndex))"

definition closestPoint :: "trackData \<Rightarrow> car \<Rightarrow> real option \<times> int" where
  "closestPoint track c = scanPoints (points track) 0 (carX c) (carZ c) (None, - 1)"

subsection \<open>Autonomous controller\<close>

text \<open>The two loops that bring the heading error into \<open>(-\<pi>, \<pi>]\<close>.\<close>

function wrapUp :: "real \<Rightarrow> real" where
  "wrapUp e = (if e \<le> - pi then wrapUp (e + pi * 2) else e)"
  by pat_completeness auto
termination
proof (relation "measure (\<lambda>e. nat (\<lfloor>(- pi - e) / (pi * 2)\<rfloor> + 1))")
  show "wf (measure (\<lambda>e. nat (\<lfloor>(- pi - e) / (pi * 2)\<rfloor> + 1)))" by simp
next
  fix e :: real
  assume le: "e \<le> - pi"
  have pos: "0 < pi * 2" by simp
  have nonneg: "0 \<le> (- pi - e) / (pi * 2)" using le pos by simp
  have shift: "(- pi - (e + pi * 2)) / (pi * 2) = (- pi - e) / (pi * 2) - 1"
    using pos by (simp add: field_simps)
  have "\<lfloor>(- pi - (e + pi * 2)) / (pi * 2)\<rfloor> = \<lfloor>(- pi - e) / (pi * 2)\<rfloor> - 1"
    unfolding shift by simp
  moreover have "0 \<le> \<lfloor>(- pi - e) / (pi * 2)\<rfloor>" using nonneg by simp
  ultimately show "(e + pi * 2, e) \<in> measure (\<lambda>e. nat (\<lfloor>(- pi - e) / (pi * 2)\<rfloor> + 1))"
    by simp
qed

function wrapDown :: "real \<Rightarrow> real" where
  "wrapDown e = (if pi < e then wrapDown (e - pi * 2) else e)"
  by pat_completeness auto
termination
proof (relation "measure (\<lambda>e. nat (\<lfloor>(e - pi) / (pi * 2)\<rfloor> + 1))")
  show "wf (measure (\<lambda>e. nat (\<lfloor>(e - pi) / (pi * 2)\<rfloor> + 1)))" by simp
next
  fix e :: real
  assume gt: "pi < e"
  have pos: "0 < pi * 2" by simp
  have nonneg: "0 \<le> (e - pi) / (pi * 2)" using gt pos by simp
  have shift: "(e - pi * 2 - pi) / (pi * 2) = (e - pi) / (pi * 2) - 1"
    using pos by (simp add: field_simps)
  have "\<lfloor>(e - pi * 2 - pi) / (pi * 2)\<rfloor> = \<lfloor>(e - pi) / (pi * 2)\<rfloor> - 1"
    unfolding shift by simp
  moreover have "0 \<le> \<lfloor>(e - pi) / (pi * 2)\<rfloor>" using nonneg by simp
  ultimately show "(e - pi * 2, e) \<in> measure (\<lambda>e. nat (\<lfloor>(e - pi) / (pi * 2)\<rfloor> + 1))"
    by simp
qed

declare wrapUp.simps [simp del] wrapDown.simps [simp del]

text \<open>
  When the controller is on and a closest point was found, all five keys are cleared
  and then set from the heading error and the current speed; otherwise the keys are
  left as the key handlers set them.
\<close>

definition aiLogic :: "aiDifficulty \<Rightarrow> carConfig \<Rightarrow> trackData \<Rightarrow> int \<Rightarrow> car \<Rightarrow> keys \<Rightarrow> keys" where
  "aiLogic ai cfg track closestPointIndex c k =
     (if ai \<noteq> OFF \<and> closestPointIndex \<noteq> - 1 then
        let lookAhead = (if ai = HARD then 35 else 15);
            targetIdx = (closestPointIndex + lookAhead) mod int (length (points track));
            targetP = points track ! nat targetIdx;
            dx = pt_x targetP - carX c;
            dz = pt_y targetP - carZ c;
            targetAngle = atan2 dz dx;
            headingError = wrapDown (wrapUp (targetAngle - angle c));
            right = (headingError > 0.05);
            left = (\<not> right \<and> headingError < - 0.05);
            turnSeverity = \<bar>headingError\<bar>;
            maxSpeed = topSpeed cfg * (if ai = HARD then 1.05 else 0.8);
            desiredSpeed = maxSpeed / (1 + turnSeverity * 5);
            up = (\<bar>speed c\<bar> < desiredSpeed);
            shift = (ai = HARD \<and> turnSeverity > 0.5 \<and> \<bar>speed c\<bar> > 20)
        in \<lparr>ArrowUp = up, ArrowDown = \<not> up, ArrowLeft = left, ArrowRight = right,
            Shift = shift\<rparr>
      else k)"

subsection \<open>Drift and boost arbitration\<close>

definition driftHeld :: "keys \<Rightarrow> car \<Rightarrow> bool" where
  "driftHeld k c =
     (let isTurning = (ArrowLeft k \<or> ArrowRight k);
          canDrift = (\<bar>speed c\<bar> > 10)
      in Shift k \<and> canDrift \<and> (isTurning \<or> drifting c))"

definition driftBoost :: "real \<Rightarrow> keys \<Rightarrow> car \<Rightarrow> car" where
  "driftBoost dt k c =
     (if driftHeld k c then
        c\<lparr>drifting := True,
          driftCharge := (if driftCharge c < 100 then driftCharge c + dt * 30
                          else driftCharge c)\<rparr>
      else
        c\<lparr>boostTimer := (if drifting c \<and> driftCharge c > 30
                         then (if driftCharge c > 80 then 2.0 else 1.0)
                         else boostTimer c),
          drifting := False,
          driftCharge := 0\<rparr>)"

subsection \<open>Longitudinal dynamics, turning, grip and position\<close>

text \<open>
  While the boost timer is positive the step counts it down and raises the top speed
  and the acceleration. The new speed is clamped between the current top speed and
  minus a third of it; the heading turns left first, then right.
\<close>

definition currentTopSpeed :: "carConfig \<Rightarrow> car \<Rightarrow> real" where
  "currentTopSpeed cfg c =
     (if boostTimer c > 0 then topSpeed cfg * 1.5 else topSpeed cfg)"

definition currentAcceleration :: "carConfig \<Rightarrow> car \<Rightarrow> real" where
  "currentAcceleration cfg c =
     (if boostTimer c > 0 then acceleration cfg * 2.0 else acceleration cfg)"

definition tickedTimer :: "real \<Rightarrow> car \<Rightarrow> real" where
  "tickedTimer dt c = (if boostTimer c > 0 then boostTimer c - dt else boostTimer c)"

definition newSpeed :: "carConfig \<Rightarrow> real \<Rightarrow> keys \<Rightarrow> car \<Rightarrow> real" where
  "newSpeed cfg dt k c =
     (let raw = (if ArrowUp k then speed c + currentAcceleration cfg c * dt * 60
                 else if ArrowDown k then speed c - currentAcceleration cfg c * 1.5 * dt * 60
                 else speed c * (if drifting c then 0.99 else 0.98))
      in max (min raw (currentTopSpeed cfg c)) (- currentTopSpeed cfg c / 3))"

definition newAngle :: "carConfig \<Rightarrow> real \<Rightarrow> keys \<Rightarrow> car \<Rightarrow> real \<Rightarrow> real" where
  "newAngle cfg dt k c sp =
     (let baseRate = 0.04 * (\<bar>sp\<bar> / topSpeed cfg) + 0.02;
          turnRate = (if drifting c then baseRate * 1.4 else baseRate);
          a1 = (if \<bar>sp\<bar> > 0.1 \<and> ArrowLeft k then angle c - turnRate * dt * 60 else angle c);
          a2 = (if \<bar>sp\<bar> > 0.1 \<and> ArrowRight k then a1 + turnRate * dt * 60 else a1)
      in a2)"

definition physics :: "carConfig \<Rightarrow> real \<Rightarrow> keys \<Rightarrow> car \<Rightarrow> car" where
  "physics cfg dt k c =
     (let sp = newSpeed cfg dt k c;
          a = newAngle cfg dt k c sp;
          headingX = cos a;
          headingZ = sin a;
          grip = (if drifting c then 0.92 else handling cfg);
          targetVX = headingX * sp;
          targetVZ = headingZ * sp;
          vx = velX c * grip + targetVX * (1 - grip);
          vz = velZ c * grip + targetVZ * (1 - grip)
      in c\<lparr>boostTimer := tickedTimer dt c, speed := sp, angle := a, velX := vx, velZ := vz,
            carX := carX c + vx * dt * 60, carZ := carZ c + vz * dt * 60\<rparr>)"

subsection \<open>Off-track penalty\<close>

text \<open>\<^verbatim>\<open>minDistance > track.width / 2\<close>, with \<open>None\<close> for \<^verbatim>\<open>Infinity\<close>.\<close>

definition isOffTrack :: "trackData \<Rightarrow> real option \<Rightarrow> bool" where
  "isOffTrack track minDistance =
     (case minDistance of None \<Rightarrow> True | Some d \<Rightarrow> d > width track / 2)"

definition penalty :: "car \<Rightarrow> car" where
  "penalty c =
     c\<lparr>drifting := False, driftCharge := 0, speed := speed c * 0.92,
       velX := velX c * 0.92, velZ := velZ c * 0.92\<rparr>"

definition offTrack :: "bool \<Rightarrow> gameState \<Rightarrow> gameState" where
  "offTrack off s =
     (if off then
        s\<lparr>car := penalty (car s),
          currentTelemetry := (currentTelemetry s)
             \<lparr>ct_offTrackFrames := ct_offTrackFrames (currentTelemetry s) + 1\<rparr>\<rparr>
      else s)"

subsection \<open>Particles and skid marks\<close>

text \<open>
  Both loops walk the array from the back and splice out the expired entries; the
  entries are independent of each other, so the survivors keep their order.
\<close>

fun ageParticles :: "real \<Rightarrow> particleData list \<Rightarrow> particleData list" where
  "ageParticles dt [] = []"
| "ageParticles dt (p # ps) =
     (let q = p\<lparr>p_x := p_x p + p_vx p, p_y := p_y p + p_vy p, p_z := p_z p + p_vz p,
                p_life := p_life p - dt\<rparr>
      in if p_life q \<le> 0 then ageParticles dt ps else q # ageParticles dt ps)"

fun ageSkidMarks :: "real \<Rightarrow> skidMarkData list \<Rightarrow> skidMarkData list" where
  "ageSkidMarks dt [] = []"
| "ageSkidMarks dt (m # ms) =
     (let q = m\<lparr>m_opacity := m_opacity m - dt * 0.5\<rparr>
      in if m_opacity q \<le> 0 then ageSkidMarks dt ms else q # ageSkidMarks dt ms)"

text \<open>
  \<^verbatim>\<open>rnd n\<close> is the value of the \<open>n\<close>-th call of \<^verbatim>\<open>Math.random()\<close> in this step:
  one for the skid mark, then four for each of the two sparks.
\<close>

definition spark :: "(nat \<Rightarrow> real) \<Rightarrow> nat \<Rightarrow> int \<Rightarrow> car \<Rightarrow> string \<Rightarrow> particleData" where
  "spark rnd n ident c sparkColor =
     \<lparr>p_id = ident,
      p_x = carX c + (rnd n - 0.5) * 20,
      p_y = 5,
      p_z = carZ c + (rnd (n + 1) - 0.5) * 20,
      p_vx = - cos (angle c) * speed c * 0.2,
      p_vy = rnd (n + 2) * 2,
      p_vz = - sin (angle c) * speed c * 0.2,
      p_life = 0.3 + rnd (n + 3) * 0.2,
      p_color = sparkColor\<rparr>"

definition effects :: "real \<Rightarrow> (nat \<Rightarrow> real) \<Rightarrow> gameState \<Rightarrow> gameState" where
  "effects dt rnd s =
     (let c = car s;
          ps = ageParticles dt (particles s);
          ms = ageSkidMarks dt (skidMarks s)
      in if drifting c \<and> \<bar>speed c\<bar> > 15 then
           let skid = (rnd 0 > 0.5);
               ms' = (if skid
                      then ms @ [\<lparr>m_id = particleIdCounter s, m_x = carX c, m_z = carZ c,
                                  m_opacity = 0.8, m_angle = angle c\<rparr>]
                      else ms);
               n0 = (if skid then particleIdCounter s + 1 else particleIdCounter s);
               sparkColor = (if driftCharge c > 80 then ''#ef4444''
                             else if driftCharge c > 30 then ''#eab308'' else ''#cbd5e1'')
           in s\<lparr>particles := ps @ [spark rnd 1 n0 c sparkColor,
                                    spark rnd 5 (n0 + 1) c sparkColor],
                skidMarks := ms',
                particleIdCounter := n0 + 2\<rparr>
         else s\<lparr>particles := ps, skidMarks := ms\<rparr>)"

subsection \<open>Checkpoints and laps\<close>

text \<open>
  \<^verbatim>\<open>Math.floor(closestPointIndex / checkpointZone)\<close>. For a zone of zero the quotient
  is \<^verbatim>\<open>NaN\<close> or an infinity, which the range test rejects: \<open>None\<close>.
\<close>

definition checkpointZone :: "trackData \<Rightarrow> int" where
  "checkpointZone track = int (length (points track)) div 4"

definition currentSection :: "trackData \<Rightarrow> int \<Rightarrow> int option" where
  "currentSection track closestPointIndex =
     (if checkpointZone track = 0 then None
      else Some (closestPointIndex div checkpointZone track))"

definition markCheckpoint :: "trackData \<Rightarrow> int \<Rightarrow> bool list \<Rightarrow> bool list" where
  "markCheckpoint track closestPointIndex cps =
     (case currentSection track closestPointIndex of
        None \<Rightarrow> cps
      | Some q \<Rightarrow> if 0 \<le> q \<and> q < 4 then arraySet cps (nat q) True else cps)"

definition lapDone :: "trackData \<Rightarrow> int \<Rightarrow> bool list \<Rightarrow> bool" where
  "lapDone track closestPointIndex cps =
     (closestPointIndex < 10 \<and> arrayGet cps 2 \<and> arrayGet cps 3)"

text \<open>
  \<^verbatim>\<open>clock n\<close> is the value of the \<open>n\<close>-th call of \<^verbatim>\<open>Date.now()\<close> in this step, in
  milliseconds.
\<close>

definition lapsStep :: "trackData \<Rightarrow> int \<Rightarrow> (nat \<Rightarrow> int) \<Rightarrow> gameState \<Rightarrow> gameState" where
  "lapsStep track closestPointIndex clock s =
     (let cps = markCheckpoint track closestPointIndex (checkpoints s)
      in if lapDone track closestPointIndex cps then
           let lapTime = real_of_int (clock 0 - lapStartTime s) / 1000
           in s\<lparr>telemetry := telemetry s @
                   [\<lparr>lapNumber = laps s + 1,
                     time = lapTime,
                     maxSpeed = mathRound (ct_maxSpeed (currentTelemetry s) * 10),
                     averageSpeed = 0,
                     offTrackCount = ct_offTrackFrames (currentTelemetry s) div 60,
                     collisions = ct_collisions (currentTelemetry s) div 10\<rparr>],
                currentTelemetry :=
                   \<lparr>ct_maxSpeed = 0, ct_collisions = 0, ct_offTrackFrames = 0\<rparr>,
                checkpoints := arrayFill cps False,
                laps := laps s + 1,
                lapStartTime := clock 1\<rparr>
         else s\<lparr>checkpoints := cps\<rparr>)"

definition trackMaxSpeed :: "gameState \<Rightarrow> gameState" where
  "trackMaxSpeed s =
     (let currentMph = \<bar>speed (car s)\<bar> * 10
      in if currentMph > ct_maxSpeed (currentTelemetry s)
         then s\<lparr>currentTelemetry := (currentTelemetry s)\<lparr>ct_maxSpeed := currentMph\<rparr>\<rparr>
         else s)"

subsection \<open>The step\<close>

definition runGameLoop ::
  "carConfig \<Rightarrow> trackData \<Rightarrow> aiDifficulty \<Rightarrow> (nat \<Rightarrow> real) \<Rightarrow> (nat \<Rightarrow> int) \<Rightarrow> real \<Rightarrow> gameState \<Rightarrow> gameState" where
  "runGameLoop cfg track ai rnd clock dt s =
     (let (minDistance, closestPointIndex) = closestPoint track (car s);
          k = aiLogic ai cfg track closestPointIndex (car s) (keys s);
          c1 = driftBoost dt k (car s);
          c2 = physics cfg dt k c1;
          s1 = offTrack (isOffTrack track minDistance) (s\<lparr>keys := k, car := c2\<rparr>);
          s2 = effects dt rnd s1;
          s3 = lapsStep track closestPointIndex clock s2
      in trackMaxSpeed s3)"

section \<open>Frames and runs\<close>

text \<open>
  A frame is what the outside world contributes to one step: the keys as the key
  handlers have left them, the controller mode, the frame time \<^verbatim>\<open>delta\<close> of the
  renderer (the step runs with \<^verbatim>\<open>Math.min(delta, 0.1)\<close>), the random numbers and the
  clock readings. Between two steps the key handlers can bring the five keys into any
  combination, so a frame names all five; a combination equal to the keys of the
  state stands for no key event at all.
\<close>

record frame =
  f_keys :: keys
  f_ai :: aiDifficulty
  f_delta :: real
  f_rnd :: "nat \<Rightarrow> real"
  f_clock :: "nat \<Rightarrow> int"

definition useFrame :: "carConfig \<Rightarrow> trackData \<Rightarrow> gameState \<Rightarrow> frame \<Rightarrow> gameState" where
  "useFrame cfg track s f =
     runGameLoop cfg track (f_ai f) (f_rnd f) (f_clock f) (min (f_delta f) 0.1)
       (s\<lparr>keys := f_keys f\<rparr>)"

definition run :: "carConfig \<Rightarrow> trackData \<Rightarrow> frame list \<Rightarrow> gameState \<Rightarrow> gameState" where
  "run cfg track fs s = foldl (useFrame cfg track) s fs"

section \<open>End of session\<close>

definition finishRace :: "string \<Rightarrow> gameState \<Rightarrow> gameSessionStats" where
  "finishRace stamp s =
     \<lparr>totalLaps = laps s,
      bestLap = (if length (telemetry s) > 0 then mathMin (map time (telemetry s)) else None),
      st_telemetry = telemetry s,
      timestamp = stamp\<rparr>"

section \<open>Observations of a step and of a run\<close>

text \<open>
  Names for the intermediate values of a step that the properties below speak about:
  the index of the closest track point, the keys the step works with (those of the
  controller when it is on), the car after drift arbitration, the car after the physics
  block, and whether the step started off the track. \<open>visited\<close> lists the checkpoint
  section seen by each step of a run; \<open>simView\<close> is the state without the particles,
  the skid marks and the particle counter.
\<close>

definition closestPointIndex :: "trackData \<Rightarrow> gameState \<Rightarrow> int" where
  "closestPointIndex track s = snd (closestPoint track (car s))"

definition heldKeys :: "carConfig \<Rightarrow> trackData \<Rightarrow> aiDifficulty \<Rightarrow> gameState \<Rightarrow> keys" where
  "heldKeys cfg track ai s = aiLogic ai cfg track (closestPointIndex track s) (car s) (keys s)"

definition arbitrated :: "carConfig \<Rightarrow> trackData \<Rightarrow> aiDifficulty \<Rightarrow> real \<Rightarrow> gameState \<Rightarrow> car" where
  "arbitrated cfg track ai dt s = driftBoost dt (heldKeys cfg track ai s) (car s)"

definition moved :: "carConfig \<Rightarrow> trackData \<Rightarrow> aiDifficulty \<Rightarrow> real \<Rightarrow> gameState \<Rightarrow> car" where
  "moved cfg track ai dt s = physics cfg dt (heldKeys cfg track ai s) (arbitrated cfg track ai dt s)"

definition leftTrack :: "trackData \<Rightarrow> gameState \<Rightarrow> bool" where
  "leftTrack track s = isOffTrack track (fst (closestPoint track (car s)))"

fun visited :: "carConfig \<Rightarrow> trackData \<Rightarrow> frame list \<Rightarrow> gameState \<Rightarrow> int option list" where
  "visited cfg track [] s = []"
| "visited cfg track (f # fs) s =
     currentSection track (closestPointIndex track s) # visited cfg track fs (useFrame cfg track s f)"

definition simView ::
  "gameState \<Rightarrow> car \<times> keys \<times> int \<times> int \<times> bool list \<times> lapTelemetry list \<times> currentTelemetry" where
  "simView s =
     (car s, keys s, laps s, lapStartTime s, checkpoints s, telemetry s, currentTelemetry s)"

section \<open>Post-race commentary\<close>

text \<open>
  \<^verbatim>\<open>analyzeRacePerformance\<close> builds a prompt from the session statistics and sends it to
  an external text generator. The generator is a parameter here: for a prompt it either
  throws or answers with a response whose \<^verbatim>\<open>text\<close> may be undefined. Everything the
  function does sits inside one \<^verbatim>\<open>try\<close> block, so \<open>GenThrows\<close> also stands for a
  fault raised while the client or the prompt is built. The formatting of the numbers in
  the prompt is left to the parameter \<open>prompt\<close>. The result of the function is the
  outcome of its promise: \<open>Inl\<close> for a rejection, \<open>Inr\<close> for the resolved text.
\<close>

datatype genOutcome = GenThrows | GenResponse "string option"

definition fallbackNoData :: string where
  "fallbackNoData = ''Communication error with Crew Chief. No data received.''"

definition fallbackRadioDown :: string where
  "fallbackRadioDown = ''Crew Chief radio is down. Check your network connection or API key.''"

text \<open>\<^verbatim>\<open>response.text || fallback\<close>: undefined and the empty string are falsy.\<close>

definition textOr :: "string option \<Rightarrow> string \<Rightarrow> string" where
  "textOr t d = (case t of None \<Rightarrow> d | Some v \<Rightarrow> if v = [] then d else v)"

definition tryAnalysis ::
  "(gameSessionStats \<Rightarrow> string) \<Rightarrow> (string \<Rightarrow> genOutcome) \<Rightarrow> gameSessionStats \<Rightarrow> fault + string" where
  "tryAnalysis prompt generateContent stats =
     (case generateContent (prompt stats) of
        GenThrows \<Rightarrow> Inl Rejected
      | GenResponse t \<Rightarrow> Inr (textOr t fallbackNoData))"

definition analyzeRacePerformance ::
  "(gameSessionStats \<Rightarrow> string) \<Rightarrow> (string \<Rightarrow> genOutcome) \<Rightarrow> gameSessionStats \<Rightarrow> fault + string" where
  "analyzeRacePerformance prompt generateContent stats =
     (case tryAnalysis prompt generateContent stats of
        Inl e \<Rightarrow> Inr fallbackRadioDown
      | Inr t \<Rightarrow> Inr t)"

text \<open>
  The \<^verbatim>\<open>CrewChief\<close> component, while mounted: it awaits the analysis and stores the
  text, or raises its error flag when the promise is rejected.
\<close>

record crewChief =
  cc_analysis :: string
  cc_loading :: bool
  cc_error :: bool

definition fetchAnalysis ::
  "(gameSessionStats \<Rightarrow> string) \<Rightarrow> (string \<Rightarrow> genOutcome) \<Rightarrow> gameSessionStats \<Rightarrow> crewChief \<Rightarrow> crewChief" where
  "fetchAnalysis prompt generateContent stats cc =
     (case analyzeRacePerformance prompt generateContent stats of
        Inr result \<Rightarrow> cc\<lparr>cc_loading := False, cc_analysis := result\<rparr>
      | Inl e \<Rightarrow> cc\<lparr>cc_loading := False, cc_error := True\<rparr>)"

text \<open>
  The application keeps the statistics of the last session; the analysis view hands
  them to the \<^verbatim>\<open>CrewChief\<close> component as a read-only property.
\<close>

datatype gameView = MENU | RACE | ANALYSIS

record app =
  view :: gameView
  lastSessionStats :: "gameSessionStats option"

definition handleRaceEnd :: "gameSessionStats \<Rightarrow> app \<Rightarrow> app" where
  "handleRaceEnd stats a = a\<lparr>lastSessionStats := Some stats, view := ANALYSIS\<rparr>"

definition analysisView ::
  "(gameSessionStats \<Rightarrow> string) \<Rightarrow> (string \<Rightarrow> genOutcome) \<Rightarrow> app \<Rightarrow> crewChief \<Rightarrow> app \<times> crewChief" where
  "analysisView prompt generateContent a cc =
     (case lastSessionStats a of
        Some stats \<Rightarrow>
          if view a = ANALYSIS
          then (a, fetchAnalysis prompt generateContent stats (cc\<lparr>cc_loading := True\<rparr>))
          else (a, cc)
      | None \<Rightarrow> (a, cc))"

section \<open>Concrete inputs\<close>

text \<open>
  The first pod of the catalogue and three tracks whose first point is the origin and
  whose second point lies to its right on the x axis: a two-point track with a chosen
  width, a four-point track along the axis, and a five-point track whose last point
  lies next to the first. A session on any of them starts in the state \<open>axisStart\<close>,
  and \<open>axisCar\<close> is a car on the x axis that heads along it. The frames last a tenth
  of a second, with a fixed set of held keys, the controller off and every clock
  reading the same. \<open>reverseSlide n\<close> holds the brake for three frames, which brings
  the pod to its reverse limit, and then holds the brake, both steering keys and the
  drift key for \<open>n\<close> frames; \<open>sprintFrames\<close> holds the throttle for four frames,
  a tenth of a second apart on the clock. \<open>litStart\<close> is the start state with a
  spark and a skid mark already on screen, \<open>pointTrack\<close> a track of one point and no
  width, \<open>noTrack\<close> a track without points, \<open>quietScene\<close> a 3D library that raises
  nothing, and the last constants are a text generator that throws, one that answers
  without text, a prompt, the statistics of a session without laps and the fresh
  states of the application and of the commentary component.
\<close>

definition pod1 :: carConfig where
  "pod1 = \<lparr>acceleration = 0.4, topSpeed = 32, handling = 0.92\<rparr>"

definition lane :: "real \<Rightarrow> trackData" where
  "lane w = \<lparr>points = [\<lparr>pt_x = 0, pt_y = 0\<rparr>, \<lparr>pt_x = 10, pt_y = 0\<rparr>], width = w\<rparr>"

definition sprint :: trackData where
  "sprint = \<lparr>points = [\<lparr>pt_x = 0, pt_y = 0\<rparr>, \<lparr>pt_x = 1, pt_y = 0\<rparr>, \<lparr>pt_x = 4, pt_y = 0\<rparr>,
                        \<lparr>pt_x = 10, pt_y = 0\<rparr>],
             width = 100\<rparr>"

definition spur :: trackData where
  "spur = \<lparr>points = [\<lparr>pt_x = 0, pt_y = 0\<rparr>, \<lparr>pt_x = 10, pt_y = 0\<rparr>, \<lparr>pt_x = 20, pt_y = 0\<rparr>,
                      \<lparr>pt_x = 30, pt_y = 0\<rparr>, \<lparr>pt_x = 1, pt_y = 0\<rparr>],
           width = 100\<rparr>"

definition noKeys :: keys where
  "noKeys = \<lparr>ArrowUp = False, ArrowDown = False, ArrowLeft = False, ArrowRight = False,
              Shift = False\<rparr>"

definition brakeKeys :: keys where
  "brakeKeys = \<lparr>ArrowUp = False, ArrowDown = True, ArrowLeft = False, ArrowRight = False,
                 Shift = False\<rparr>"

definition slideKeys :: keys where
  "slideKeys = \<lparr>ArrowUp = False, ArrowDown = True, ArrowLeft = True, ArrowRight = True,
                 Shift = True\<rparr>"

definition throttleKeys :: keys where
  "throttleKeys = \<lparr>ArrowUp = True, ArrowDown = False, ArrowLeft = False, ArrowRight = False,
                    Shift = False\<rparr>"

definition noRandom :: "nat \<Rightarrow> real" where
  "noRandom n = 0"

definition atTime :: "int \<Rightarrow> nat \<Rightarrow> int" where
  "atTime t n = t"

definition timed :: "keys \<Rightarrow> int \<Rightarrow> frame" where
  "timed k t = \<lparr>f_keys = k, f_ai = OFF, f_delta = 0.1, f_rnd = noRandom, f_clock = atTime t\<rparr>"

definition steady :: "keys \<Rightarrow> frame" where
  "steady k = timed k 0"

definition sprintFrames :: "frame list" where
  "sprintFrames = [timed throttleKeys 100, timed throttleKeys 200, timed throttleKeys 300,
                   timed throttleKeys 400]"

definition reverseSlide :: "nat \<Rightarrow> frame list" where
  "reverseSlide n = replicate 3 (steady brakeKeys) @ replicate n (steady slideKeys)"

definition axisCar :: "real \<Rightarrow> real \<Rightarrow> real \<Rightarrow> bool \<Rightarrow> real \<Rightarrow> real \<Rightarrow> car" where
  "axisCar x v sp d ch bt =
     \<lparr>carX = x, carZ = 0, angle = 0, velX = v, velZ = 0, speed = sp, drifting = d,
      driftCharge = ch, boostTimer = bt\<rparr>"

definition axisStart :: gameState where
  "axisStart =
     \<lparr>car = axisCar 0 0 0 False 0 0, keys = noKeys, particles = [], skidMarks = [],
      laps = 0, lapStartTime = 0, checkpoints = [False, False, False, False],
      telemetry = [],
      currentTelemetry = \<lparr>ct_maxSpeed = 0, ct_collisions = 0, ct_offTrackFrames = 0\<rparr>,
      particleIdCounter = 0\<rparr>"

definition halfRandom :: "nat \<Rightarrow> real" where
  "halfRandom n = 1 / 2"

definition litStart :: gameState where
  "litStart =
     axisStart\<lparr>particles := [\<lparr>p_id = 0, p_x = 1, p_y = 5, p_z = 1, p_vx = 0, p_vy = 1, p_vz = 0,
                                p_life = 1, p_color = ''#cbd5e1''\<rparr>],
               skidMarks := [\<lparr>m_id = 1, m_x = 0, m_z = 0, m_opacity = 0.8, m_angle = 0\<rparr>],
               particleIdCounter := 2\<rparr>"

definition pointTrack :: trackData where
  "pointTrack = \<lparr>points = [\<lparr>pt_x = 0, pt_y = 0\<rparr>], width = 0\<rparr>"

definition quietScene :: "trackData \<Rightarrow> fault option" where
  "quietScene track = None"

definition noTrack :: trackData where
  "noTrack = \<lparr>points = [], width = 100\<rparr>"

definition failingService :: "string \<Rightarrow> genOutcome" where
  "failingService p = GenThrows"

definition silentService :: "string \<Rightarrow> genOutcome" where
  "silentService p = GenResponse None"

definition plainPrompt :: "gameSessionStats \<Rightarrow> string" where
  "plainPrompt stats = ''Total Laps''"

definition noLaps :: gameSessionStats where
  "noLaps = \<lparr>totalLaps = 0, bestLap = None, st_telemetry = [], timestamp = ''stamp''\<rparr>"

definition menu :: app where
  "menu = \<lparr>view = MENU, lastSessionStats = None\<rparr>"

definition idle :: crewChief where
  "idle = \<lparr>cc_analysis = [], cc_loading = True, cc_error = False\<rparr>"

section \<open>The step, phase by phase\<close>

lemma runGameLoop_phases:
  "runGameLoop cfg track ai rnd clock dt s =
     trackMaxSpeed (lapsStep track (closestPointIndex track s) clock
       (effects dt rnd (offTrack (leftTrack track s)
          (s\<lparr>keys := heldKeys cfg track ai s, car := moved cfg track ai dt s\<rparr>))))"
  by (simp add: runGameLoop_def closestPointIndex_def heldKeys_def arbitrated_def moved_def
      leftTrack_def Let_def split: prod.splits)

lemma effects_keeps [simp]:
  "car (effects dt rnd s) = car s"
  "keys (effects dt rnd s) = keys s"
  "laps (effects dt rnd s) = laps s"
  "lapStartTime (effects dt rnd s) = lapStartTime s"
  "checkpoints (effects dt rnd s) = checkpoints s"
  "telemetry (effects dt rnd s) = telemetry s"
  "currentTelemetry (effects dt rnd s) = currentTelemetry s"
  by (simp_all add: effects_def Let_def)

lemma offTrack_keeps [simp]:
  "keys (offTrack off s) = keys s"
  "laps (offTrack off s) = laps s"
  "lapStartTime (offTrack off s) = lapStartTime s"
  "checkpoints (offTrack off s) = checkpoints s"
  "telemetry (offTrack off s) = telemetry s"
  "currentTelemetry (offTrack off s) =
     (if off then (currentTelemetry s)
        \<lparr>ct_offTrackFrames := ct_offTrackFrames (currentTelemetry s) + 1\<rparr>
      else currentTelemetry s)"
  "car (offTrack off s) = (if off then penalty (car s) else car s)"
  by (simp_all add: offTrack_def)

lemma lapsStep_keeps [simp]:
  "car (lapsStep track i clock s) = car s"
  "keys (lapsStep track i clock s) = keys s"
  by (simp_all add: lapsStep_def Let_def)

lemma trackMaxSpeed_keeps [simp]:
  "car (trackMaxSpeed s) = car s"
  "keys (trackMaxSpeed s) = keys s"
  "laps (trackMaxSpeed s) = laps s"
  "lapStartTime (trackMaxSpeed s) = lapStartTime s"
  "checkpoints (trackMaxSpeed s) = checkpoints s"
  "telemetry (trackMaxSpeed s) = telemetry s"
  "ct_collisions (currentTelemetry (trackMaxSpeed s)) = ct_collisions (currentTelemetry s)"
  by (simp_all add: trackMaxSpeed_def Let_def)

lemma runGameLoop_car:
  "car (runGameLoop cfg track ai rnd clock dt s) =
     (if leftTrack track s then penalty (moved cfg track ai dt s) else moved cfg track ai dt s)"
  by (simp add: runGameLoop_phases)

lemma runGameLoop_checkpoints:
  "checkpoints (runGameLoop cfg track ai rnd clock dt s) =
     (let cps = markCheckpoint track (closestPointIndex track s) (checkpoints s)
      in if lapDone track (closestPointIndex track s) cps then arrayFill cps False else cps)"
  by (simp add: runGameLoop_phases lapsStep_def Let_def)

lemma run_Nil [simp]: "run cfg track [] s = s"
  by (simp add: run_def)

lemma run_Cons [simp]: "run cfg track (f # fs) s = run cfg track fs (useFrame cfg track s f)"
  by (simp add: run_def)

lemma run_append: "run cfg track (fs @ gs) s = run cfg track gs (run cfg track fs s)"
  by (simp add: run_def)

lemma useFrame_pre [simp]:
  "car (s\<lparr>keys := k\<rparr>) = car s"
  "closestPointIndex track (s\<lparr>keys := k\<rparr>) = closestPointIndex track s"
  "leftTrack track (s\<lparr>keys := k\<rparr>) = leftTrack track s"
  by (simp_all add: closestPointIndex_def leftTrack_def)

lemma physics_speed [simp]: "speed (physics cfg dt k c) = newSpeed cfg dt k c"
  by (simp add: physics_def Let_def)

lemma newSpeed_bounds:
  assumes "0 \<le> topSpeed cfg"
  shows "- currentTopSpeed cfg c / 3 \<le> newSpeed cfg dt k c
     \<and> newSpeed cfg dt k c \<le> currentTopSpeed cfg c"
proof -
  have "0 \<le> currentTopSpeed cfg c" using assms by (simp add: currentTopSpeed_def)
  then show ?thesis
    unfolding newSpeed_def Let_def by linarith
qed

lemma penalty_speed [simp]: "speed (penalty c) = speed c * 0.92"
  by (simp add: penalty_def)

lemma physics_drift [simp]:
  "drifting (physics cfg dt k c) = drifting c"
  "driftCharge (physics cfg dt k c) = driftCharge c"
  by (simp_all add: physics_def Let_def)

lemma penalty_drift [simp]:
  "drifting (penalty c) = False"
  "driftCharge (penalty c) = 0"
  by (simp_all add: penalty_def)

lemma physics_timer [simp]: "boostTimer (physics cfg dt k c) = tickedTimer dt c"
  by (simp add: physics_def Let_def)

lemma penalty_timer [simp]: "boostTimer (penalty c) = boostTimer c"
  by (simp add: penalty_def)

lemma initGame_car:
  assumes "initGame track now = Inr s0"
  shows "speed (car s0) = 0" "driftCharge (car s0) = 0" "drifting (car s0) = False"
    "boostTimer (car s0) = 0"
  using assms by (auto simp: initGame_def Let_def split: list.splits)

section \<open>Telemetry, laps and checkpoints of a step\<close>

lemma runGameLoop_lap:
  "telemetry (runGameLoop cfg track ai rnd clock dt s) =
     (if lapDone track (closestPointIndex track s)
           (markCheckpoint track (closestPointIndex track s) (checkpoints s))
      then telemetry s @
        [\<lparr>lapNumber = laps s + 1,
          time = real_of_int (clock 0 - lapStartTime s) / 1000,
          maxSpeed = mathRound (ct_maxSpeed (currentTelemetry s) * 10),
          averageSpeed = 0,
          offTrackCount = (if leftTrack track s
                           then ct_offTrackFrames (currentTelemetry s) + 1
                           else ct_offTrackFrames (currentTelemetry s)) div 60,
          collisions = ct_collisions (currentTelemetry s) div 10\<rparr>]
      else telemetry s)"
  by (simp add: runGameLoop_phases lapsStep_def Let_def)

lemma runGameLoop_laps:
  "laps (runGameLoop cfg track ai rnd clock dt s) =
     (if lapDone track (closestPointIndex track s)
           (markCheckpoint track (closestPointIndex track s) (checkpoints s))
      then laps s + 1 else laps s)"
  "lapStartTime (runGameLoop cfg track ai rnd clock dt s) =
     (if lapDone track (closestPointIndex track s)
           (markCheckpoint track (closestPointIndex track s) (checkpoints s))
      then clock 1 else lapStartTime s)"
  "ct_collisions (currentTelemetry (runGameLoop cfg track ai rnd clock dt s)) =
     (if lapDone track (closestPointIndex track s)
           (markCheckpoint track (closestPointIndex track s) (checkpoints s))
      then 0 else ct_collisions (currentTelemetry s))"
  by (simp_all add: runGameLoop_phases lapsStep_def Let_def)

lemma useFrame_fields:
  "telemetry (useFrame cfg track s f) =
     telemetry (runGameLoop cfg track (f_ai f) (f_rnd f) (f_clock f) (min (f_delta f) 0.1)
       (s\<lparr>keys := f_keys f\<rparr>))"
  "laps (useFrame cfg track s f) =
     laps (runGameLoop cfg track (f_ai f) (f_rnd f) (f_clock f) (min (f_delta f) 0.1)
       (s\<lparr>keys := f_keys f\<rparr>))"
  "checkpoints (useFrame cfg track s f) =
     checkpoints (runGameLoop cfg track (f_ai f) (f_rnd f) (f_clock f) (min (f_delta f) 0.1)
       (s\<lparr>keys := f_keys f\<rparr>))"
  "currentTelemetry (useFrame cfg track s f) =
     currentTelemetry (runGameLoop cfg track (f_ai f) (f_rnd f) (f_clock f)
       (min (f_delta f) 0.1) (s\<lparr>keys := f_keys f\<rparr>))"
  by (simp_all add: useFrame_def)

lemma initGame_fields:
  assumes "initGame track now = Inr s0"
  shows "telemetry s0 = []" "laps s0 = 0" "checkpoints s0 = [False, False, False, False]"
    "ct_collisions (currentTelemetry s0) = 0" "points track \<noteq> []"
  using assms by (auto simp: initGame_def Let_def split: list.splits)

section \<open>The closest point index\<close>

lemma scanPoints_index:
  "snd (scanPoints ps i cx cz (m, j)) = j
   \<or> (i \<le> snd (scanPoints ps i cx cz (m, j))
      \<and> snd (scanPoints ps i cx cz (m, j)) < i + int (length ps))"
proof (induction ps arbitrary: i m j)
  case Nil
  then show ?case by simp
next
  case (Cons p ps)
  let ?d = "sqrt ((cx - pt_x p)\<^sup>2 + (cz - pt_y p)\<^sup>2)"
  show ?case
  proof (cases "belowMin ?d m")
    case True
    then show ?thesis
      using Cons.IH [of "i + 1" "Some ?d" i] by (auto simp: Let_def)
  next
    case False
    then show ?thesis
      using Cons.IH [of "i + 1" m j] by (auto simp: Let_def)
  qed
qed

lemma closestPointIndex_range:
  assumes "points track \<noteq> []"
  shows "0 \<le> closestPointIndex track s
       \<and> closestPointIndex track s < int (length (points track))"
proof -
  obtain p ps where ps: "points track = p # ps"
    using assms by (cases "points track") auto
  let ?d = "sqrt ((carX (car s) - pt_x p)\<^sup>2 + (carZ (car s) - pt_y p)\<^sup>2)"
  have "closestPointIndex track s =
          snd (scanPoints ps 1 (carX (car s)) (carZ (car s)) (Some ?d, 0))"
    by (simp add: closestPointIndex_def closestPoint_def ps belowMin_def Let_def)
  then show ?thesis
    using scanPoints_index [of ps 1 "carX (car s)" "carZ (car s)" "Some ?d" 0]
    by (auto simp: ps)
qed

lemma closestPoint_empty:
  assumes "points track = []"
  shows "closestPointIndex track s = - 1"
  using assms by (simp add: closestPointIndex_def closestPoint_def)

section \<open>Reading and marking checkpoints\<close>

lemma arrayGet_arraySet:
  "arrayGet (arraySet cps j True) i = (i = j \<or> arrayGet cps i)"
  by (auto simp: arrayGet_def arraySet_def nth_append nth_list_update)

lemma arrayGet_arrayFill [simp]: "arrayGet (arrayFill cps False) i = False"
  by (simp add: arrayGet_def arrayFill_def)

lemma markCheckpoint_get:
  "arrayGet (markCheckpoint track i cps) q =
     (arrayGet cps q \<or> currentSection track i = Some (int q) \<and> q < 4)"
  by (auto simp: markCheckpoint_def arrayGet_arraySet split: option.splits)

lemma quarter_less:
  fixes i z :: int
  assumes "0 < z" "i < 4 * z"
  shows "i div z < 4"
proof (rule ccontr)
  assume "\<not> i div z < 4"
  then have "4 \<le> i div z" by simp
  then have "z * 4 \<le> z * (i div z)"
    using assms(1) by (intro mult_left_mono) simp_all
  moreover have "z * (i div z) + i mod z = i" by simp
  moreover have "0 \<le> i mod z" using assms(1) by simp
  ultimately show False using assms(2) by linarith
qed

lemma quarter_greater:
  fixes i z :: int
  assumes "0 < z" "4 * z \<le> i"
  shows "4 \<le> i div z"
proof -
  have "(4 * z) div z \<le> i div z"
    using assms by (intro zdiv_mono1)
  then show ?thesis using assms(1) by simp
qed

section \<open>Reversing along the two-point track\<close>

text \<open>
  A pod that starts at the origin of the two-point track and only ever brakes, or
  brakes with both steering keys held, stays on the x axis with heading 0: the left
  and the right turn of a step cancel. Its closest track point is the first one, at
  distance \<open>-x\<close>. The lemmas give the car after one frame of braking, of sliding
  (brake, both steering keys and the drift key), of sliding while off the track, and of
  letting the drift key go; \<open>reverse_prefix\<close> follows the car frame by frame through
  three brake frames and eleven slide frames.
\<close>

lemma less_sqrt_iff: "0 \<le> b \<Longrightarrow> (b < sqrt a) = (b\<^sup>2 < a)"
proof -
  assume b: "0 \<le> b"
  have "(b < sqrt a) = (sqrt (b\<^sup>2) < sqrt a)" using b by simp
  also have "\<dots> = (b\<^sup>2 < a)" by (rule real_sqrt_less_iff)
  finally show ?thesis .
qed

lemma lane_setup: "initGame (lane w) 0 = Inr axisStart"
  by (simp add: initGame_def lane_def axisStart_def axisCar_def noKeys_def atan2_def)

lemma closest_lane:
  assumes "x \<le> 0"
  shows "closestPoint (lane w) (axisCar x v sp d ch bt) = (Some (- x), 0)"
  using assms by (simp add: closestPoint_def lane_def belowMin_def axisCar_def)

lemma lane_view:
  assumes "car s = axisCar x v sp d ch bt" "x \<le> 0"
  shows "closestPointIndex (lane w) s = 0"
    and "leftTrack (lane w) s = (w / 2 < - x)"
    and "heldKeys cfg (lane w) OFF s = keys s"
  using assms closest_lane [of x w v sp d ch bt]
  by (simp_all add: closestPointIndex_def leftTrack_def heldKeys_def aiLogic_def
      isOffTrack_def lane_def)

lemma useFrame_steady_car:
  assumes "car s = axisCar x v sp d ch bt" "x \<le> 0"
  shows "car (useFrame cfg (lane w) s (steady k)) =
     (if w / 2 < - x then penalty (physics cfg (1 / 10) k (driftBoost (1 / 10) k (car s)))
      else physics cfg (1 / 10) k (driftBoost (1 / 10) k (car s)))"
proof -
  let ?s = "s\<lparr>keys := k\<rparr>"
  have c: "car ?s = axisCar x v sp d ch bt" using assms by simp
  have "heldKeys cfg (lane w) OFF ?s = k" "leftTrack (lane w) ?s = (w / 2 < - x)"
    using lane_view [OF c assms(2)] by simp_all
  then show ?thesis
    by (simp add: useFrame_def steady_def timed_def runGameLoop_car moved_def arbitrated_def)
qed

lemma penalty_axis:
  "penalty (axisCar x v sp d ch bt) =
     axisCar x (v * (23 / 25)) (sp * (23 / 25)) False 0 bt"
  by (simp add: penalty_def axisCar_def)

lemma pod1_handling: "handling pod1 = 23 / 25"
  by (simp add: pod1_def)

lemma axis_physics:
  assumes c: "c = axisCar x v sp d ch bt"
    and n: "newSpeed pod1 dt k c = sp'"
    and a: "newAngle pod1 dt k c sp' = 0"
    and t: "tickedTimer dt c = bt'"
  shows "physics pod1 dt k c =
         axisCar (x + (v * (23 / 25) + sp' * (2 / 25)) * dt * 60)
           (v * (23 / 25) + sp' * (2 / 25)) sp' d ch bt'"
proof -
  have f: "carX c = x" "carZ c = 0" "velX c = v" "velZ c = 0" "drifting c = d"
    "driftCharge c = ch"
    by (simp_all add: c axisCar_def)
  have "physics pod1 dt k c =
          c\<lparr>boostTimer := bt', speed := sp', angle := 0,
            velX := v * (23 / 25) + sp' * (2 / 25), velZ := 0,
            carX := x + (v * (23 / 25) + sp' * (2 / 25)) * dt * 60, carZ := 0\<rparr>"
    by (simp add: physics_def Let_def n a t f pod1_handling)
  then show ?thesis by (simp add: c axisCar_def)
qed

lemma slide_physics:
  assumes "ch < 100"
  shows "physics pod1 (1 / 10) slideKeys
           (driftBoost (1 / 10) slideKeys (axisCar x v (- 32 / 3) d ch 0)) =
         axisCar (x + (v * (23 / 25) - 64 / 75) * 6) (v * (23 / 25) - 64 / 75)
           (- 32 / 3) True (ch + 3) 0"
proof -
  define c where "c = driftBoost (1 / 10) slideKeys (axisCar x v (- 32 / 3) d ch 0)"
  define dt :: real where "dt = 1 / 10"
  have c: "c = axisCar x v (- 32 / 3) True (ch + 3) 0"
    using assms
    by (simp add: c_def driftBoost_def driftHeld_def slideKeys_def axisCar_def)
  have n: "newSpeed pod1 dt slideKeys c = - 32 / 3"
    by (simp add: c dt_def newSpeed_def currentTopSpeed_def currentAcceleration_def
        slideKeys_def axisCar_def pod1_def Let_def)
  have a: "newAngle pod1 dt slideKeys c (- 32 / 3) = 0"
    by (simp add: c dt_def newAngle_def slideKeys_def axisCar_def Let_def)
  have t: "tickedTimer dt c = 0"
    by (simp add: c tickedTimer_def axisCar_def)
  have "physics pod1 dt slideKeys c =
          axisCar (x + (v * (23 / 25) + (- 32 / 3) * (2 / 25)) * dt * 60)
            (v * (23 / 25) + (- 32 / 3) * (2 / 25)) (- 32 / 3) True (ch + 3) 0"
    by (rule axis_physics [OF c n a t])
  then show ?thesis by (simp add: c_def dt_def axisCar_def)
qed

lemma release_physics:
  assumes "30 < ch" "ch \<le> 80"
  shows "physics pod1 (1 / 10) brakeKeys
           (driftBoost (1 / 10) brakeKeys (axisCar x v (- 32 / 3) True ch 0)) =
         axisCar (x + (v * (23 / 25) - 32 / 25) * 6) (v * (23 / 25) - 32 / 25)
           (- 16) False 0 (9 / 10)"
proof -
  define c where "c = driftBoost (1 / 10) brakeKeys (axisCar x v (- 32 / 3) True ch 0)"
  define dt :: real where "dt = 1 / 10"
  have c: "c = axisCar x v (- 32 / 3) False 0 1"
    using assms
    by (simp add: c_def driftBoost_def driftHeld_def brakeKeys_def axisCar_def)
  have n: "newSpeed pod1 dt brakeKeys c = - 16"
    by (simp add: c dt_def newSpeed_def currentTopSpeed_def currentAcceleration_def
        brakeKeys_def axisCar_def pod1_def Let_def)
  have a: "newAngle pod1 dt brakeKeys c (- 16) = 0"
    by (simp add: c dt_def newAngle_def brakeKeys_def axisCar_def Let_def)
  have t: "tickedTimer dt c = 9 / 10"
    by (simp add: c dt_def tickedTimer_def axisCar_def)
  have "physics pod1 dt brakeKeys c =
          axisCar (x + (v * (23 / 25) + (- 16) * (2 / 25)) * dt * 60)
            (v * (23 / 25) + (- 16) * (2 / 25)) (- 16) False 0 (9 / 10)"
    by (rule axis_physics [OF c n a t])
  then show ?thesis by (simp add: c_def dt_def axisCar_def)
qed

lemma brake_physics:
  assumes "sp \<le> 0" "- 32 / 3 \<le> sp"
  shows "physics pod1 (1 / 10) brakeKeys
           (driftBoost (1 / 10) brakeKeys (axisCar x v sp False 0 0)) =
         axisCar (x + (v * (23 / 25) + max (sp - 18 / 5) (- 32 / 3) * (2 / 25)) * 6)
           (v * (23 / 25) + max (sp - 18 / 5) (- 32 / 3) * (2 / 25))
           (max (sp - 18 / 5) (- 32 / 3)) False 0 0"
proof -
  define c where "c = driftBoost (1 / 10) brakeKeys (axisCar x v sp False 0 0)"
  define dt :: real where "dt = 1 / 10"
  define sp' where "sp' = max (sp - 18 / 5) (- 32 / 3)"
  have c: "c = axisCar x v sp False 0 0"
    by (simp add: c_def driftBoost_def driftHeld_def brakeKeys_def axisCar_def)
  have n: "newSpeed pod1 dt brakeKeys c = sp'"
    using assms
    by (simp add: c dt_def sp'_def newSpeed_def currentTopSpeed_def currentAcceleration_def
        brakeKeys_def axisCar_def pod1_def Let_def)
  have a: "newAngle pod1 dt brakeKeys c sp' = 0"
    by (simp add: c dt_def newAngle_def brakeKeys_def axisCar_def Let_def)
  have t: "tickedTimer dt c = 0"
    by (simp add: c tickedTimer_def axisCar_def)
  have "physics pod1 dt brakeKeys c =
          axisCar (x + (v * (23 / 25) + sp' * (2 / 25)) * dt * 60)
            (v * (23 / 25) + sp' * (2 / 25)) sp' False 0 0"
    by (rule axis_physics [OF c n a t])
  then show ?thesis by (simp add: c_def dt_def sp'_def axisCar_def)
qed

lemma brake_step:
  assumes "car s = axisCar x v sp False 0 0" "x \<le> 0" "- x \<le> w / 2"
    "sp \<le> 0" "- 32 / 3 \<le> sp"
  shows "car (useFrame pod1 (lane w) s (steady brakeKeys)) =
         axisCar (x + (v * (23 / 25) + max (sp - 18 / 5) (- 32 / 3) * (2 / 25)) * 6)
           (v * (23 / 25) + max (sp - 18 / 5) (- 32 / 3) * (2 / 25))
           (max (sp - 18 / 5) (- 32 / 3)) False 0 0"
  using assms(3) brake_physics [OF assms(4,5)]
  by (simp add: useFrame_steady_car [OF assms(1,2)] assms(1))

lemma slide_step:
  assumes "car s = axisCar x v (- 32 / 3) d ch 0" "x \<le> 0" "- x \<le> w / 2" "ch < 100"
  shows "car (useFrame pod1 (lane w) s (steady slideKeys)) =
         axisCar (x + (v * (23 / 25) - 64 / 75) * 6) (v * (23 / 25) - 64 / 75)
           (- 32 / 3) True (ch + 3) 0"
  using assms(3) slide_physics [OF assms(4)]
  by (simp add: useFrame_steady_car [OF assms(1,2)] assms(1))

lemma slide_off_step:
  assumes "car s = axisCar x v (- 32 / 3) d ch 0" "x \<le> 0" "w / 2 < - x" "ch < 100"
  shows "car (useFrame pod1 (lane w) s (steady slideKeys)) =
         axisCar (x + (v * (23 / 25) - 64 / 75) * 6)
           ((v * (23 / 25) - 64 / 75) * (23 / 25)) (- 736 / 75) False 0 0"
  using assms(3) slide_physics [OF assms(4)]
  by (simp add: useFrame_steady_car [OF assms(1,2)] assms(1) penalty_axis)

lemma release_step:
  assumes "car s = axisCar x v (- 32 / 3) True ch 0" "x \<le> 0" "- x \<le> w / 2"
    "30 < ch" "ch \<le> 80"
  shows "car (useFrame pod1 (lane w) s (steady brakeKeys)) =
         axisCar (x + (v * (23 / 25) - 32 / 25) * 6) (v * (23 / 25) - 32 / 25)
           (- 16) False 0 (9 / 10)"
  using assms(3) release_physics [OF assms(4,5)]
  by (simp add: useFrame_steady_car [OF assms(1,2)] assms(1))

lemma reverse_prefix:
  assumes "car s = axisCar 0 0 0 False 0 0" and w: "700 \<le> w"
  shows "car (run pod1 (lane w) (reverseSlide 11) s) =
         axisCar (- 64460218560695293514928 / 186264514923095703125)
           (- 1313925644453026203588 / 186264514923095703125) (- 32 / 3) True 33 0"
proof -
  let ?B = "\<lambda>t. useFrame pod1 (lane w) t (steady brakeKeys)"
  let ?S = "\<lambda>t. useFrame pod1 (lane w) t (steady slideKeys)"
  have c1: "car (?B s) =
      axisCar (- 216 / 125)
        (- 36 / 125) (- 18 / 5) False (0) 0"
    using brake_step [OF assms(1), of w] w by simp
  have c2: "car (?B (?B s)) =
      axisCar (- 21168 / 3125)
        (- 2628 / 3125) (- 36 / 5) False (0) 0"
    using brake_step [OF c1, of w] w by simp
  have c3: "car (?B (?B (?B s))) =
      axisCar (- 1291864 / 78125)
        (- 381332 / 234375) (- 32 / 3) False (0) 0"
    using brake_step [OF c2, of w] w by simp
  have c4: "car (?S (?B (?B (?B s)))) =
      axisCar (- 59837872 / 1953125)
        (- 4590212 / 1953125) (- 32 / 3) True (3) 0"
    using slide_step [OF c3, of w] w by simp
  have c5: "car (?S (?S (?B (?B (?B s))))) =
      axisCar (- 2379396056 / 48828125)
        (- 441724628 / 146484375) (- 32 / 3) True (6) 0"
    using slide_step [OF c4, of w] w by simp
  have c6: "car (?S (?S (?S (?B (?B (?B s)))))) =
      axisCar (- 86054234288 / 1220703125)
        (- 4428222148 / 1220703125) (- 32 / 3) True (9) 0"
    using slide_step [OF c5, of w] w by simp
  have c7: "car (?S (?S (?S (?S (?B (?B (?B s))))))) =
      axisCar (- 2918700513624 / 30517578125)
        (- 383672328212 / 91552734375) (- 32 / 3) True (12) 0"
    using slide_step [OF c6, of w] w by simp
  have c8: "car (?S (?S (?S (?S (?S (?B (?B (?B s)))))))) =
      axisCar (- 94522689938352 / 762939453125)
        (- 3592529516292 / 762939453125) (- 32 / 3) True (15) 0"
    using slide_step [OF c7, of w] w by simp
  have c9: "car (?S (?S (?S (?S (?S (?S (?B (?B (?B s))))))))) =
      axisCar (- 2956492571707096 / 19073486328125)
        (- 296712661624148 / 57220458984375) (- 32 / 3) True (18) 0"
    using slide_step [OF c8, of w] w by simp
  have c10: "car (?S (?S (?S (?S (?S (?S (?S (?B (?B (?B s)))))))))) =
      axisCar (- 90002502977388208 / 476837158203125)
        (- 2681698114118468 / 476837158203125) (- 32 / 3) True (21) 0"
    using slide_step [OF c9, of w] w by simp
  have c11: "car (?S (?S (?S (?S (?S (?S (?S (?S (?B (?B (?B s))))))))))) =
      axisCar (- 2681172070433053784 / 11920928955078125)
        (- 215554747999174292 / 35762786865234375) (- 32 / 3) True (24) 0"
    using slide_step [OF c10, of w] w by simp
  have c12: "car (?S (?S (?S (?S (?S (?S (?S (?S (?S (?B (?B (?B s)))))))))))) =
      axisCar (- 78470699075038362032 / 298023223876953125)
        (- 1906899552368669572 / 298023223876953125) (- 32 / 3) True (27) 0"
    using slide_step [OF c11, of w] w by simp
  have c13: "car (?S (?S (?S (?S (?S (?S (?S (?S (?S (?S (?B (?B (?B s))))))))))))) =
      axisCar (- 2263066587759085451736 / 7450580596923828125)
        (- 150649555441563200468 / 22351741790771484375) (- 32 / 3) True (30) 0"
    using slide_step [OF c12, of w] w by simp
  have c14: "car (?S (?S (?S (?S (?S (?S (?S (?S (?S (?S (?S (?B (?B (?B s)))))))))))))) =
      axisCar (- 64460218560695293514928 / 186264514923095703125)
        (- 1313925644453026203588 / 186264514923095703125) (- 32 / 3) True (33) 0"
    using slide_step [OF c13, of w] w by simp
  show ?thesis
    by (simp add: reverseSlide_def eval_nat_numeral c14)
qed

section \<open>Driving forwards along the axis\<close>

text \<open>
  With the throttle held and the controller off, the first pod gains 2.4 units of speed
  per frame and stays on the x axis. On the four-point track it passes the points with
  indices 1, 2 and 3 in its first three frames, so the fourth step completes a lap.
\<close>

lemma useFrame_manual_car:
  assumes "f_ai f = OFF"
  shows "car (useFrame cfg track s f) =
     (if leftTrack track s
      then penalty (physics cfg (min (f_delta f) 0.1) (f_keys f)
                      (driftBoost (min (f_delta f) 0.1) (f_keys f) (car s)))
      else physics cfg (min (f_delta f) 0.1) (f_keys f)
             (driftBoost (min (f_delta f) 0.1) (f_keys f) (car s)))"
  using assms
  by (simp add: useFrame_def runGameLoop_car moved_def arbitrated_def heldKeys_def aiLogic_def)

lemma throttle_physics:
  assumes "0 \<le> sp"
  shows "physics pod1 (1 / 10) throttleKeys
           (driftBoost (1 / 10) throttleKeys (axisCar x v sp False 0 0)) =
         axisCar (x + (v * (23 / 25) + min (sp + 12 / 5) 32 * (2 / 25)) * 6)
           (v * (23 / 25) + min (sp + 12 / 5) 32 * (2 / 25))
           (min (sp + 12 / 5) 32) False 0 0"
proof -
  define c where "c = driftBoost (1 / 10) throttleKeys (axisCar x v sp False 0 0)"
  define dt :: real where "dt = 1 / 10"
  define sp' where "sp' = min (sp + 12 / 5) 32"
  have c: "c = axisCar x v sp False 0 0"
    by (simp add: c_def driftBoost_def driftHeld_def throttleKeys_def axisCar_def)
  have n: "newSpeed pod1 dt throttleKeys c = sp'"
    using assms
    by (simp add: c dt_def sp'_def newSpeed_def currentTopSpeed_def currentAcceleration_def
        throttleKeys_def axisCar_def pod1_def Let_def)
  have a: "newAngle pod1 dt throttleKeys c sp' = 0"
    by (simp add: c dt_def newAngle_def throttleKeys_def axisCar_def Let_def)
  have t: "tickedTimer dt c = 0"
    by (simp add: c tickedTimer_def axisCar_def)
  have "physics pod1 dt throttleKeys c =
          axisCar (x + (v * (23 / 25) + sp' * (2 / 25)) * dt * 60)
            (v * (23 / 25) + sp' * (2 / 25)) sp' False 0 0"
    by (rule axis_physics [OF c n a t])
  then show ?thesis by (simp add: c_def dt_def sp'_def axisCar_def)
qed

lemma throttle_step:
  assumes "car s = axisCar x v sp False 0 0" "0 \<le> sp" "\<not> leftTrack track s"
  shows "car (useFrame pod1 track s (timed throttleKeys t)) =
         axisCar (x + (v * (23 / 25) + min (sp + 12 / 5) 32 * (2 / 25)) * 6)
           (v * (23 / 25) + min (sp + 12 / 5) 32 * (2 / 25))
           (min (sp + 12 / 5) 32) False 0 0"
proof -
  have "car (useFrame pod1 track s (timed throttleKeys t)) =
          physics pod1 (1 / 10) throttleKeys (driftBoost (1 / 10) throttleKeys (car s))"
    using assms(3) useFrame_manual_car [of "timed throttleKeys t" pod1 track s]
    by (simp add: timed_def)
  then show ?thesis
    using throttle_physics [OF assms(2)] by (simp add: assms(1))
qed

lemmas probe_defs = closestPointIndex_def leftTrack_def closestPoint_def belowMin_def
  isOffTrack_def axisCar_def less_sqrt_iff

lemma timed_fields [simp]:
  "f_keys (timed k t) = k" "f_ai (timed k t) = OFF" "f_delta (timed k t) = 1 / 10"
  "f_rnd (timed k t) = noRandom" "f_clock (timed k t) n = t"
  by (simp_all add: timed_def atTime_def)

lemma sprint_setup: "initGame sprint 0 = Inr axisStart"
  by (simp add: initGame_def sprint_def axisStart_def axisCar_def noKeys_def atan2_def)

lemma sprint_marks:
  "markCheckpoint sprint 0 [False, False, False, False] = [True, False, False, False]"
  "markCheckpoint sprint 1 [True, False, False, False] = [True, True, False, False]"
  "markCheckpoint sprint 2 [True, True, False, False] = [True, True, True, False]"
  "markCheckpoint sprint 3 [True, True, True, False] = [True, True, True, True]"
  by (simp_all add: markCheckpoint_def currentSection_def checkpointZone_def sprint_def
      arraySet_def)

lemma sprint_sections:
  "currentSection sprint 0 = Some 0" "currentSection sprint 1 = Some 1"
  "currentSection sprint 2 = Some 2" "currentSection sprint 3 = Some 3"
  by (simp_all add: currentSection_def checkpointZone_def sprint_def)

lemma sprint_run:
  fixes t1 t2 t3 :: int
  defines "s1 \<equiv> useFrame pod1 sprint axisStart (timed throttleKeys t1)"
  defines "s2 \<equiv> useFrame pod1 sprint s1 (timed throttleKeys t2)"
  defines "s3 \<equiv> useFrame pod1 sprint s2 (timed throttleKeys t3)"
  shows "closestPointIndex sprint axisStart = 0"
    and "closestPointIndex sprint s1 = 1"
    and "closestPointIndex sprint s2 = 2"
    and "closestPointIndex sprint s3 = 3"
    and "checkpoints s3 = [True, True, True, False]"
    and "telemetry s3 = []"
    and "lapStartTime s3 = 0"
    and "laps s3 = 0"
    and "telemetry s2 = []"
    and "checkpoints s2 = [True, True, False, False]"
proof -
  have c0: "car axisStart = axisCar 0 0 0 False 0 0"
    by (simp add: axisStart_def)
  have i0: "closestPointIndex sprint axisStart = 0" "\<not> leftTrack sprint axisStart"
    by (simp_all add: c0 probe_defs sprint_def)
  have c1: "car s1 = axisCar (144 / 125) (24 / 125) (12 / 5) False 0 0"
    unfolding s1_def using throttle_step [OF c0 _ i0(2), of t1] by simp
  have i1: "closestPointIndex sprint s1 = 1" "\<not> leftTrack sprint s1"
    by (simp_all add: c1 probe_defs sprint_def)
  have c2: "car s2 = axisCar (14112 / 3125) (1752 / 3125) (24 / 5) False 0 0"
    unfolding s2_def using throttle_step [OF c1 _ i1(2), of t2] by simp
  have i2: "closestPointIndex sprint s2 = 2" "\<not> leftTrack sprint s2"
    by (simp_all add: c2 probe_defs sprint_def)
  have c3: "car s3 = axisCar (864576 / 78125) (85296 / 78125) (36 / 5) False 0 0"
    unfolding s3_def using throttle_step [OF c2 _ i2(2), of t3] by simp
  have i3: "closestPointIndex sprint s3 = 3" "\<not> leftTrack sprint s3"
    by (simp_all add: c3 probe_defs sprint_def)
  have f0: "checkpoints axisStart = [False, False, False, False]" "telemetry axisStart = []"
    "lapStartTime axisStart = 0" "laps axisStart = 0"
    by (simp_all add: axisStart_def)
  have f1: "checkpoints s1 = [True, False, False, False]" "telemetry s1 = []"
    "lapStartTime s1 = 0" "laps s1 = 0"
    unfolding s1_def
    by (simp_all add: useFrame_def runGameLoop_checkpoints runGameLoop_lap runGameLoop_laps
        i0 f0 sprint_marks lapDone_def arrayGet_def)
  have f2: "checkpoints s2 = [True, True, False, False]" "telemetry s2 = []"
    "lapStartTime s2 = 0" "laps s2 = 0"
    unfolding s2_def
    by (simp_all add: useFrame_def runGameLoop_checkpoints runGameLoop_lap runGameLoop_laps
        i1 f1 sprint_marks lapDone_def arrayGet_def)
  have f3: "checkpoints s3 = [True, True, True, False]" "telemetry s3 = []"
    "lapStartTime s3 = 0" "laps s3 = 0"
    unfolding s3_def
    by (simp_all add: useFrame_def runGameLoop_checkpoints runGameLoop_lap runGameLoop_laps
        i2 f2 sprint_marks lapDone_def arrayGet_def)
  show "closestPointIndex sprint axisStart = 0" "closestPointIndex sprint s1 = 1"
    "closestPointIndex sprint s2 = 2" "closestPointIndex sprint s3 = 3"
    "checkpoints s3 = [True, True, True, False]" "telemetry s3 = []" "lapStartTime s3 = 0"
    "laps s3 = 0" "telemetry s2 = []" "checkpoints s2 = [True, True, False, False]"
    using i0 i1 i2 i3 f3 f2 by simp_all
qed

lemma sprint_lap:
  "map time (telemetry (run pod1 sprint sprintFrames axisStart)) = [2 / 5]"
proof -
  define s3 where
    "s3 = useFrame pod1 sprint (useFrame pod1 sprint
            (useFrame pod1 sprint axisStart (timed throttleKeys 100))
            (timed throttleKeys 200)) (timed throttleKeys 300)"
  have f: "closestPointIndex sprint s3 = 3" "checkpoints s3 = [True, True, True, False]"
    "telemetry s3 = []" "lapStartTime s3 = 0" "laps s3 = 0"
    unfolding s3_def by (rule sprint_run)+
  have "map time (telemetry (useFrame pod1 sprint s3 (timed throttleKeys 400))) = [2 / 5]"
    by (simp add: useFrame_fields runGameLoop_lap f sprint_marks lapDone_def arrayGet_def)
  then show ?thesis
    by (simp add: sprintFrames_def s3_def)
qed

lemma spur_setup: "initGame spur 0 = Inr axisStart"
  by (simp add: initGame_def spur_def axisStart_def axisCar_def noKeys_def atan2_def)

section \<open>Speed limits\<close>

text \<open>
  Claim C1, as amended. After every step the speed lies between minus a third of the
  current top speed and the current top speed, where the current top speed is the
  pod's top speed times 1.5 when the boost timer is positive at the start of the
  step's physics block (after that step's drift arbitration) and the plain top speed
  otherwise. The reverse limit is therefore a third of the boosted top speed while a
  boost runs: the speed never leaves the interval from minus half the top speed to
  one and a half times the top speed. This holds for every state, every held keys,
  every controller mode and every time step, for a pod whose top speed is not
  negative.
\<close>

theorem speed_within_current_limits:
  assumes "0 \<le> topSpeed cfg"
  shows "- currentTopSpeed cfg (arbitrated cfg track ai dt s) / 3
           \<le> speed (car (runGameLoop cfg track ai rnd clock dt s))
       \<and> speed (car (runGameLoop cfg track ai rnd clock dt s))
           \<le> currentTopSpeed cfg (arbitrated cfg track ai dt s)
       \<and> - topSpeed cfg / 2 \<le> speed (car (runGameLoop cfg track ai rnd clock dt s))
       \<and> speed (car (runGameLoop cfg track ai rnd clock dt s)) \<le> topSpeed cfg * 1.5"
proof -
  let ?c1 = "arbitrated cfg track ai dt s"
  let ?m = "currentTopSpeed cfg ?c1"
  let ?v = "newSpeed cfg dt (heldKeys cfg track ai s) ?c1"
  let ?r = "speed (car (runGameLoop cfg track ai rnd clock dt s))"
  have m: "0 \<le> ?m" "?m \<le> topSpeed cfg * 1.5"
    using assms by (simp_all add: currentTopSpeed_def)
  have v: "- ?m / 3 \<le> ?v" "?v \<le> ?m"
    using newSpeed_bounds [OF assms] by blast+
  have r: "?r = ?v \<or> ?r = ?v * 0.92"
    by (simp add: runGameLoop_car moved_def)
  have "- ?m / 3 \<le> ?r \<and> ?r \<le> ?m"
    using r m(1) v by auto
  then show ?thesis using m by auto
qed

text \<open>
  The theorem at the first pod, on the two-point track of width 700, for the first step
  of a session with the brake held.
\<close>

theorem speed_within_current_limits_witness:
  "0 \<le> topSpeed pod1
   \<and> - currentTopSpeed pod1 (arbitrated pod1 (lane 700) OFF (1 / 10) (axisStart\<lparr>keys := brakeKeys\<rparr>)) / 3
           \<le> speed (car (runGameLoop pod1 (lane 700) OFF noRandom (atTime 0) (1 / 10) (axisStart\<lparr>keys := brakeKeys\<rparr>)))
   \<and> speed (car (runGameLoop pod1 (lane 700) OFF noRandom (atTime 0) (1 / 10) (axisStart\<lparr>keys := brakeKeys\<rparr>)))
           \<le> currentTopSpeed pod1 (arbitrated pod1 (lane 700) OFF (1 / 10) (axisStart\<lparr>keys := brakeKeys\<rparr>))"
proof -
  have h: "0 \<le> topSpeed pod1" by (simp add: pod1_def)
  show ?thesis
    using h speed_within_current_limits [OF h, of "lane 700" OFF "1 / 10"
        "axisStart\<lparr>keys := brakeKeys\<rparr>" noRandom "atTime 0"]
    by simp
qed

text \<open>
  Claim C1 as stated fails. On the two-point track of width 700 the first pod brakes
  for three frames, slides backwards for eleven frames, which charges the drift to 33,
  and then lets go of the drift key with the brake still held. That step grants a
  boost of one second and clamps the speed at minus a third of the boosted top speed:
  the speed is -16, below minus a third of the top speed 32, while the boost timer
  is positive.
\<close>

theorem reverse_limit_counterexample:
  "initGame (lane 700) 0 = Inr axisStart
   \<and> speed (car (run pod1 (lane 700) (reverseSlide 11 @ [steady brakeKeys]) axisStart)) = - 16
   \<and> boostTimer (car (run pod1 (lane 700) (reverseSlide 11 @ [steady brakeKeys]) axisStart)) = 9 / 10
   \<and> speed (car (run pod1 (lane 700) (reverseSlide 11 @ [steady brakeKeys]) axisStart))
         < - topSpeed pod1 / 3"
proof -
  have p: "car (run pod1 (lane 700) (reverseSlide 11) axisStart) =
             axisCar (- 64460218560695293514928 / 186264514923095703125)
               (- 1313925644453026203588 / 186264514923095703125) (- 32 / 3) True 33 0"
    by (rule reverse_prefix) (simp_all add: axisStart_def)
  have "car (run pod1 (lane 700) (reverseSlide 11 @ [steady brakeKeys]) axisStart) =
          axisCar
            (- 64460218560695293514928 / 186264514923095703125
               + ((- 1313925644453026203588 / 186264514923095703125) * (23 / 25) - 32 / 25) * 6)
            ((- 1313925644453026203588 / 186264514923095703125) * (23 / 25) - 32 / 25)
            (- 16) False 0 (9 / 10)"
    unfolding run_append using release_step [OF p, of 700] by simp
  then show ?thesis
    by (simp add: lane_setup axisCar_def pod1_def)
qed

section \<open>Boost on release of a drift\<close>

text \<open>
  Claim C2, as amended. The drift arbitration of a step grants a boost exactly when the
  car was drifting, the arbitration ends the drift (the drift key is up, or the speed is
  not above 10 in absolute value) and the charge is above 30: the timer is then set to
  2 if the charge is above 80 and to 1 if it is in (30, 80]. In every other case the
  arbitration leaves the timer as it was; in particular a drift that outlasts the
  arbitration and is ended later in the same step by the off-track penalty grants
  nothing. The physics block of the same step then counts a positive timer down by the
  time step, and nothing else in the step changes it.
\<close>

theorem drift_release_boost:
  "boostTimer (arbitrated cfg track ai dt s) =
     (if drifting (car s) \<and> \<not> driftHeld (heldKeys cfg track ai s) (car s)
         \<and> driftCharge (car s) > 30
      then (if driftCharge (car s) > 80 then 2 else 1)
      else boostTimer (car s))
   \<and> boostTimer (car (runGameLoop cfg track ai rnd clock dt s)) =
       tickedTimer dt (arbitrated cfg track ai dt s)
   \<and> tickedTimer dt (arbitrated cfg track ai dt s) =
       (if boostTimer (arbitrated cfg track ai dt s) > 0
        then boostTimer (arbitrated cfg track ai dt s) - dt
        else boostTimer (arbitrated cfg track ai dt s))"
  by (simp add: runGameLoop_car moved_def arbitrated_def driftBoost_def tickedTimer_def)

text \<open>
  The theorem at the step that releases the drift key after three brake frames and
  eleven slide frames: the charge is 33 and the timer is set to 1.
\<close>

theorem drift_release_boost_witness:
  "drifting (car (run pod1 (lane 700) (reverseSlide 11) axisStart))
   \<and> \<not> driftHeld brakeKeys (car (run pod1 (lane 700) (reverseSlide 11) axisStart))
   \<and> driftCharge (car (run pod1 (lane 700) (reverseSlide 11) axisStart)) = 33
   \<and> boostTimer (arbitrated pod1 (lane 700) OFF (1 / 10)
        ((run pod1 (lane 700) (reverseSlide 11) axisStart)\<lparr>keys := brakeKeys\<rparr>)) = 1"
proof -
  let ?p = "run pod1 (lane 700) (reverseSlide 11) axisStart"
  have p: "car ?p =
             axisCar (- 64460218560695293514928 / 186264514923095703125)
               (- 1313925644453026203588 / 186264514923095703125) (- 32 / 3) True 33 0"
    by (rule reverse_prefix) (simp_all add: axisStart_def)
  have c: "car (?p\<lparr>keys := brakeKeys\<rparr>) =
             axisCar (- 64460218560695293514928 / 186264514923095703125)
               (- 1313925644453026203588 / 186264514923095703125) (- 32 / 3) True 33 0"
    using p by simp
  have k: "heldKeys pod1 (lane 700) OFF (?p\<lparr>keys := brakeKeys\<rparr>) = brakeKeys"
    using lane_view(3) [OF c, of pod1 700] by simp
  have f: "drifting (car ?p)" "driftCharge (car ?p) = 33" "\<not> driftHeld brakeKeys (car ?p)"
    by (simp_all add: p axisCar_def driftHeld_def brakeKeys_def)
  show ?thesis
    using f drift_release_boost [of pod1 "lane 700" OFF "1 / 10"
        "?p\<lparr>keys := brakeKeys\<rparr>" noRandom "atTime 0"]
    by (simp add: k)
qed

text \<open>
  Claim C2 as stated fails. On the two-point track of width 700 the first pod brakes
  for three frames and slides backwards for twelve; it is then drifting with a charge
  of 36, no boost running, and more than 350 away from the nearest track point. In the
  next step, with the drift key still held, the drift survives the arbitration and is
  ended by the off-track penalty: the drifting flag goes from true to false with a
  charge above 30, and the boost timer stays 0.
\<close>

theorem drift_lost_off_track:
  "initGame (lane 700) 0 = Inr axisStart
   \<and> drifting (car (run pod1 (lane 700) (reverseSlide 11 @ [steady slideKeys]) axisStart))
   \<and> driftCharge (car (run pod1 (lane 700) (reverseSlide 11 @ [steady slideKeys]) axisStart)) = 36
   \<and> boostTimer (car (run pod1 (lane 700) (reverseSlide 11 @ [steady slideKeys]) axisStart)) = 0
   \<and> \<not> drifting (car (useFrame pod1 (lane 700)
          (run pod1 (lane 700) (reverseSlide 11 @ [steady slideKeys]) axisStart)
          (steady slideKeys)))
   \<and> boostTimer (car (useFrame pod1 (lane 700)
          (run pod1 (lane 700) (reverseSlide 11 @ [steady slideKeys]) axisStart)
          (steady slideKeys))) = 0"
proof -
  let ?p = "run pod1 (lane 700) (reverseSlide 11) axisStart"
  let ?q = "run pod1 (lane 700) (reverseSlide 11 @ [steady slideKeys]) axisStart"
  have p: "car ?p =
             axisCar (- 64460218560695293514928 / 186264514923095703125)
               (- 1313925644453026203588 / 186264514923095703125) (- 32 / 3) True 33 0"
    by (rule reverse_prefix) (simp_all add: axisStart_def)
  have q: "car ?q =
             axisCar (- 1816669060862056203968344 / 4656612873077392578125)
               (- 102581798422336933047572 / 13969838619232177734375) (- 32 / 3) True 36 0"
    unfolding run_append using slide_step [OF p, of 700] by simp
  have "car (useFrame pod1 (lane 700) ?q (steady slideKeys)) =
          axisCar
            (- 1816669060862056203968344 / 4656612873077392578125
               + ((- 102581798422336933047572 / 13969838619232177734375) * (23 / 25) - 64 / 75) * 6)
            (((- 102581798422336933047572 / 13969838619232177734375) * (23 / 25) - 64 / 75)
               * (23 / 25))
            (- 736 / 75) False 0 0"
    by (rule slide_off_step [OF q]) simp_all
  then show ?thesis
    by (simp add: q lane_setup axisCar_def)
qed

section \<open>Lap completion\<close>

lemma useFrame_unvisited:
  assumes "\<not> arrayGet (checkpoints s) q" "currentSection track (closestPointIndex track s) \<noteq> Some (int q)"
  shows "\<not> arrayGet (checkpoints (useFrame cfg track s f)) q"
  using assms
  by (simp add: useFrame_fields runGameLoop_checkpoints Let_def markCheckpoint_get)

lemma useFrame_no_lap:
  assumes "\<not> arrayGet (checkpoints s) q" "currentSection track (closestPointIndex track s) \<noteq> Some (int q)"
    "q = 2 \<or> q = 3"
  shows "telemetry (useFrame cfg track s f) = telemetry s"
  using assms
  by (auto simp: useFrame_fields runGameLoop_lap lapDone_def markCheckpoint_get)

lemma run_no_lap:
  assumes "\<not> arrayGet (checkpoints s) q" "Some (int q) \<notin> set (visited cfg track fs s)"
    "q = 2 \<or> q = 3"
  shows "telemetry (run cfg track fs s) = telemetry s"
  using assms
proof (induction fs arbitrary: s)
  case Nil
  then show ?case by simp
next
  case (Cons f fs)
  have v: "currentSection track (closestPointIndex track s) \<noteq> Some (int q)"
    "Some (int q) \<notin> set (visited cfg track fs (useFrame cfg track s f))"
    using Cons.prems(2) by auto
  have "telemetry (run cfg track fs (useFrame cfg track s f)) =
          telemetry (useFrame cfg track s f)"
    by (rule Cons.IH [OF useFrame_unvisited [OF Cons.prems(1) v(1)] v(2) Cons.prems(3)])
  then show ?case
    using useFrame_no_lap [OF Cons.prems(1) v(1) Cons.prems(3)] by simp
qed

text \<open>
  Claim C3. A step appends exactly one lap record when the index of the closest track
  point is below 10 and checkpoint quarters 2 and 3 are both marked, the marking of the
  step itself included; otherwise it appends nothing, and it never changes the records
  already there. In a session the index is never negative. Consequently, in every
  session whose steps never see the closest point in section 2, or never see it in
  section 3, no lap record is ever appended.
\<close>

theorem lap_needs_back_half:
  assumes "initGame track now = Inr s0"
    and "Some 2 \<notin> set (visited cfg track fs s0) \<or> Some 3 \<notin> set (visited cfg track fs s0)"
  shows "telemetry (run cfg track fs s0) = []
       \<and> 0 \<le> closestPointIndex track s
       \<and> (length (telemetry (runGameLoop cfg track ai rnd clock dt s)) =
            (if closestPointIndex track s < 10
                \<and> arrayGet (markCheckpoint track (closestPointIndex track s) (checkpoints s)) 2
                \<and> arrayGet (markCheckpoint track (closestPointIndex track s) (checkpoints s)) 3
             then length (telemetry s) + 1 else length (telemetry s)))
       \<and> take (length (telemetry s)) (telemetry (runGameLoop cfg track ai rnd clock dt s)) =
           telemetry s"
proof -
  have i: "telemetry s0 = []" "\<not> arrayGet (checkpoints s0) 2" "\<not> arrayGet (checkpoints s0) 3"
    using initGame_fields [OF assms(1)] by (simp_all add: arrayGet_def)
  have "telemetry (run cfg track fs s0) = telemetry s0"
    using assms(2) run_no_lap [OF i(2), of cfg track fs] run_no_lap [OF i(3), of cfg track fs]
    by auto
  moreover have "0 \<le> closestPointIndex track s"
    using closestPointIndex_range [OF initGame_fields(5) [OF assms(1)]] by simp
  ultimately show ?thesis
    by (simp add: i runGameLoop_lap lapDone_def)
qed

text \<open>
  The theorem on the four-point track: after two throttle frames the pod has seen
  sections 0 and 1 only and no lap is recorded; the fourth step sees index 3 with
  quarters 2 and 3 marked and records the first lap.
\<close>

theorem lap_needs_back_half_witness:
  "initGame sprint 0 = Inr axisStart
   \<and> visited pod1 sprint [timed throttleKeys 100, timed throttleKeys 200] axisStart
       = [Some 0, Some 1]
   \<and> telemetry (run pod1 sprint [timed throttleKeys 100, timed throttleKeys 200] axisStart) = []
   \<and> closestPointIndex sprint
        (run pod1 sprint [timed throttleKeys 100, timed throttleKeys 200, timed throttleKeys 300]
           axisStart) = 3
   \<and> length (telemetry (runGameLoop pod1 sprint OFF noRandom (atTime 400) (1 / 10)
        (run pod1 sprint [timed throttleKeys 100, timed throttleKeys 200, timed throttleKeys 300]
           axisStart))) = 1"
proof -
  define s3 where
    "s3 = useFrame pod1 sprint (useFrame pod1 sprint
            (useFrame pod1 sprint axisStart (timed throttleKeys 100))
            (timed throttleKeys 200)) (timed throttleKeys 300)"
  have f: "closestPointIndex sprint s3 = 3" "checkpoints s3 = [True, True, True, False]"
    "telemetry s3 = []"
    unfolding s3_def by (rule sprint_run)+
  have v: "visited pod1 sprint [timed throttleKeys 100, timed throttleKeys 200] axisStart
             = [Some 0, Some 1]"
    by (simp add: sprint_run sprint_sections)
  then have h: "Some 2 \<notin> set (visited pod1 sprint
                   [timed throttleKeys 100, timed throttleKeys 200] axisStart)
              \<or> Some 3 \<notin> set (visited pod1 sprint
                   [timed throttleKeys 100, timed throttleKeys 200] axisStart)"
    by simp
  have "telemetry (run pod1 sprint [timed throttleKeys 100, timed throttleKeys 200] axisStart) = []
      \<and> length (telemetry (runGameLoop pod1 sprint OFF noRandom (atTime 400) (1 / 10) s3)) = 1"
    using lap_needs_back_half [OF sprint_setup h, of s3 OFF noRandom "atTime 400" "1 / 10"]
    by (simp add: f sprint_marks arrayGet_def)
  then show ?thesis
    using v f(1) sprint_setup by (simp add: s3_def)
qed

section \<open>Drift charge\<close>

lemma step_charge_cases:
  "(\<not> drifting (car (runGameLoop cfg track ai rnd clock dt s))
      \<and> driftCharge (car (runGameLoop cfg track ai rnd clock dt s)) = 0)
   \<or> (drifting (car (runGameLoop cfg track ai rnd clock dt s))
      \<and> driftCharge (car (runGameLoop cfg track ai rnd clock dt s)) =
          (if driftCharge (car s) < 100 then driftCharge (car s) + dt * 30
           else driftCharge (car s)))"
  by (simp add: runGameLoop_car moved_def arbitrated_def driftBoost_def)

lemma useFrame_charge_cases:
  "(\<not> drifting (car (useFrame cfg track s f))
      \<and> driftCharge (car (useFrame cfg track s f)) = 0)
   \<or> (drifting (car (useFrame cfg track s f))
      \<and> driftCharge (car (useFrame cfg track s f)) =
          (if driftCharge (car s) < 100 then driftCharge (car s) + min (f_delta f) 0.1 * 30
           else driftCharge (car s)))"
proof -
  have c: "car (s\<lparr>keys := f_keys f\<rparr>) = car s" by simp
  show ?thesis
    unfolding useFrame_def
    using step_charge_cases [of cfg track "f_ai f" "f_rnd f" "f_clock f"
        "min (f_delta f) 0.1" "s\<lparr>keys := f_keys f\<rparr>"]
    unfolding c .
qed

lemma useFrame_charge_range:
  assumes "0 \<le> driftCharge (car s)" "driftCharge (car s) < 103" "0 \<le> f_delta f"
  shows "0 \<le> driftCharge (car (useFrame cfg track s f))
       \<and> driftCharge (car (useFrame cfg track s f)) < 103"
proof -
  have "0 \<le> min (f_delta f) 0.1 * 30" "min (f_delta f) 0.1 * 30 \<le> 3"
    using assms(3) by (simp_all add: min_def)
  then show ?thesis
    using useFrame_charge_cases [of cfg track s f] assms(1,2)
    by (auto split: if_splits)
qed

lemma run_charge_range:
  assumes "0 \<le> driftCharge (car s)" "driftCharge (car s) < 103"
    and "\<forall>g \<in> set fs. 0 \<le> f_delta g"
  shows "0 \<le> driftCharge (car (run cfg track fs s))
       \<and> driftCharge (car (run cfg track fs s)) < 103"
  using assms
proof (induction fs arbitrary: s)
  case Nil
  then show ?case by simp
next
  case (Cons f fs)
  have "0 \<le> driftCharge (car (useFrame cfg track s f))
      \<and> driftCharge (car (useFrame cfg track s f)) < 103"
    using useFrame_charge_range [of s f] Cons.prems by simp
  then show ?case
    using Cons.IH [of "useFrame cfg track s f"] Cons.prems(3) by simp
qed

lemma slide_many:
  assumes "car s = axisCar x v (- 32 / 3) d ch 0" "x \<le> 0" "v \<le> 0" "- 32 / 3 \<le> v"
    "64 * real n - x \<le> w / 2" "ch + 3 * real n \<le> 102"
  shows "\<exists>x' v'. car (run pod1 (lane w) (replicate n (steady slideKeys)) s) =
           axisCar x' v' (- 32 / 3) (d \<or> 0 < n) (ch + 3 * real n) 0
         \<and> x - 64 * real n \<le> x' \<and> x' \<le> 0 \<and> v' \<le> 0 \<and> - 32 / 3 \<le> v'"
  using assms
proof (induction n arbitrary: s x v d ch)
  case 0
  then show ?case by auto
next
  case (Suc n)
  let ?v = "v * (23 / 25) - 64 / 75"
  let ?x = "x + ?v * 6"
  let ?s = "useFrame pod1 (lane w) s (steady slideKeys)"
  have on: "- x \<le> w / 2" and ch: "ch < 100"
    using Suc.prems(5,6) by simp_all
  have c: "car ?s = axisCar ?x ?v (- 32 / 3) True (ch + 3) 0"
    by (rule slide_step [OF Suc.prems(1,2) on ch])
  have b: "?x \<le> 0" "?v \<le> 0" "- 32 / 3 \<le> ?v" "x - 64 \<le> ?x" "?x \<le> x"
    using Suc.prems(2,3,4) by simp_all
  have "64 * real n - ?x \<le> w / 2" "ch + 3 + 3 * real n \<le> 102"
    using Suc.prems(5,6) b(4) by simp_all
  from Suc.IH [OF c b(1,2,3) this]
  obtain x' v' where
    r: "car (run pod1 (lane w) (replicate n (steady slideKeys)) ?s) =
          axisCar x' v' (- 32 / 3) (True \<or> 0 < n) (ch + 3 + 3 * real n) 0"
    and k: "?x - 64 * real n \<le> x'" "x' \<le> 0" "v' \<le> 0" "- 32 / 3 \<le> v'"
    by blast
  have "car (run pod1 (lane w) (replicate (Suc n) (steady slideKeys)) s) =
          axisCar x' v' (- 32 / 3) (d \<or> 0 < Suc n) (ch + 3 * real (Suc n)) 0"
    using r by (simp add: algebra_simps)
  moreover have "x - 64 * real (Suc n) \<le> x'"
    using k(1) b(4) by simp
  ultimately show ?case using k by blast
qed

text \<open>
  Claim C4, as amended. In every session whose frame times are not negative, the drift
  charge after every step lies in the interval from 0 up to, but not including, 103.
  After a step that ends without drifting the charge is 0. After a step that ends
  drifting, the charge has grown by 30 times the time step if it was below 100 before
  the step, and is unchanged otherwise: the test comes before the addition, so the
  charge can end above 100, by less than one increment.
\<close>

theorem driftCharge_range:
  assumes "initGame track now = Inr s0"
    and "\<forall>g \<in> set fs. 0 \<le> f_delta g" and "0 \<le> f_delta f"
  shows "0 \<le> driftCharge (car (useFrame cfg track (run cfg track fs s0) f))
       \<and> driftCharge (car (useFrame cfg track (run cfg track fs s0) f)) < 103
       \<and> ((\<not> drifting (car (useFrame cfg track (run cfg track fs s0) f))
            \<and> driftCharge (car (useFrame cfg track (run cfg track fs s0) f)) = 0)
          \<or> (drifting (car (useFrame cfg track (run cfg track fs s0) f))
            \<and> driftCharge (car (useFrame cfg track (run cfg track fs s0) f)) =
                (if driftCharge (car (run cfg track fs s0)) < 100
                 then driftCharge (car (run cfg track fs s0)) + min (f_delta f) 0.1 * 30
                 else driftCharge (car (run cfg track fs s0)))))"
proof -
  have r: "0 \<le> driftCharge (car (run cfg track fs s0))
         \<and> driftCharge (car (run cfg track fs s0)) < 103"
    using run_charge_range [of s0 fs] initGame_car(2) [OF assms(1)] assms(2) by simp
  show ?thesis
    using useFrame_charge_range [of "run cfg track fs s0" f] r assms(3)
      useFrame_charge_cases [of cfg track "run cfg track fs s0" f]
    by blast
qed

text \<open>
  The theorem in the session on the two-point track of width 700, at the slide frame
  that follows three brake frames and eleven slide frames.
\<close>

theorem driftCharge_range_witness:
  "initGame (lane 700) 0 = Inr axisStart
   \<and> 0 \<le> f_delta (steady slideKeys)
   \<and> 0 \<le> driftCharge (car (useFrame pod1 (lane 700)
              (run pod1 (lane 700) (reverseSlide 11) axisStart) (steady slideKeys)))
   \<and> driftCharge (car (useFrame pod1 (lane 700)
              (run pod1 (lane 700) (reverseSlide 11) axisStart) (steady slideKeys))) < 103"
proof -
  have i: "initGame (lane 700) 0 = Inr axisStart" by (rule lane_setup)
  have a: "\<forall>g \<in> set (reverseSlide 11). 0 \<le> f_delta g"
    by (auto simp: reverseSlide_def steady_def timed_def)
  have d: "0 \<le> f_delta (steady slideKeys)" by (simp add: steady_def timed_def)
  show ?thesis
    using i d driftCharge_range [OF i a d, of pod1] by blast
qed

text \<open>
  Claim C4 as stated fails. On the two-point track of width 100000 the first pod
  brakes for three frames and then slides backwards for 34 frames of a tenth of a
  second. The charge is 99 before the last of them and 102 after it.
\<close>

theorem driftCharge_overshoot:
  "initGame (lane 100000) 0 = Inr axisStart
   \<and> drifting (car (run pod1 (lane 100000) (reverseSlide 34) axisStart))
   \<and> driftCharge (car (run pod1 (lane 100000) (reverseSlide 34) axisStart)) = 102"
proof -
  let ?p = "run pod1 (lane 100000) (reverseSlide 11) axisStart"
  have p: "car ?p =
             axisCar (- 64460218560695293514928 / 186264514923095703125)
               (- 1313925644453026203588 / 186264514923095703125) (- 32 / 3) True 33 0"
    by (rule reverse_prefix) (simp_all add: axisStart_def)
  have split: "reverseSlide 34 = reverseSlide 11 @ replicate 23 (steady slideKeys)"
    by (simp add: reverseSlide_def flip: replicate_add)
  obtain x' v' where
    "car (run pod1 (lane 100000) (replicate 23 (steady slideKeys)) ?p) =
       axisCar x' v' (- 32 / 3) (True \<or> 0 < (23::nat)) (33 + 3 * real 23) 0"
    using slide_many [OF p, of 23 100000] by auto
  then have "car (run pod1 (lane 100000) (reverseSlide 34) axisStart) =
       axisCar x' v' (- 32 / 3) True 102 0"
    by (simp add: split run_append)
  then show ?thesis
    by (simp add: lane_setup axisCar_def)
qed

section \<open>Checkpoint marking\<close>

text \<open>
  Claim C5, as amended. On a track with at least one point, a step marks checkpoint
  \<open>q\<close>, the closest point index divided by a quarter of the point count, both
  divisions rounded down, when the index is below four times that quarter; \<open>q\<close> is
  then below 4. For every other index, that is for the last points of a track
  whose point count is not a multiple of 4 and for every index of a track with fewer
  than four points, the step marks nothing: the section is tested against the range
  0 to 3, not clamped into it. A step that completes a lap clears all checkpoints
  after marking.
\<close>

theorem checkpoint_marked_in_range:
  assumes "points track \<noteq> []"
  shows "checkpoints (runGameLoop cfg track ai rnd clock dt s) =
           (if lapDone track (closestPointIndex track s)
                 (markCheckpoint track (closestPointIndex track s) (checkpoints s))
            then arrayFill (markCheckpoint track (closestPointIndex track s) (checkpoints s)) False
            else markCheckpoint track (closestPointIndex track s) (checkpoints s))
       \<and> markCheckpoint track (closestPointIndex track s) (checkpoints s) =
           (if closestPointIndex track s < 4 * (int (length (points track)) div 4)
            then arraySet (checkpoints s)
                   (nat (closestPointIndex track s div (int (length (points track)) div 4))) True
            else checkpoints s)
       \<and> (if closestPointIndex track s < 4 * (int (length (points track)) div 4)
           then nat (closestPointIndex track s div (int (length (points track)) div 4)) < 4
           else int (length (points track)) - int (length (points track)) mod 4
                  \<le> closestPointIndex track s)"
proof -
  let ?i = "closestPointIndex track s" and ?n = "int (length (points track))"
  have i: "0 \<le> ?i" "?i < ?n"
    using closestPointIndex_range [OF assms] by simp_all
  have z: "0 \<le> ?n div 4" by simp
  have m: "markCheckpoint track ?i (checkpoints s) =
           (if ?i < 4 * (?n div 4)
            then arraySet (checkpoints s) (nat (?i div (?n div 4))) True
            else checkpoints s)"
  proof (cases "?i < 4 * (?n div 4)")
    case True
    then have p: "0 < ?n div 4" using i(1) by linarith
    have "?i div (?n div 4) < 4"
      using p True by (rule quarter_less)
    moreover have "0 \<le> ?i div (?n div 4)"
      using i(1) p by (simp add: pos_imp_zdiv_nonneg_iff)
    ultimately show ?thesis
      using True p by (simp add: markCheckpoint_def currentSection_def checkpointZone_def)
  next
    case False
    then have "?n div 4 = 0 \<or> 4 \<le> ?i div (?n div 4)"
      using z quarter_greater [of "?n div 4" ?i] by (cases "?n div 4 = 0") simp_all
    then show ?thesis
      using False by (auto simp: markCheckpoint_def currentSection_def checkpointZone_def)
  qed
  have r: "(if ?i < 4 * (?n div 4) then nat (?i div (?n div 4)) < 4
            else ?n - ?n mod 4 \<le> ?i)"
  proof (cases "?i < 4 * (?n div 4)")
    case True
    then have p: "0 < ?n div 4" using i(1) by linarith
    have "?i div (?n div 4) < 4"
      using p True by (rule quarter_less)
    then show ?thesis using True by simp
  next
    case False
    have "?n - ?n mod 4 = 4 * (?n div 4)" by (simp add: minus_mod_eq_mult_div)
    then show ?thesis using False by simp
  qed
  show ?thesis
    using m r by (simp add: runGameLoop_checkpoints Let_def)
qed

text \<open>
  The theorem on the four-point track, at the third step of the sprint: the closest
  index is 2 and quarter 2 is marked.
\<close>

theorem checkpoint_marked_in_range_witness:
  "points sprint \<noteq> []
   \<and> closestPointIndex sprint
        (run pod1 sprint [timed throttleKeys 100, timed throttleKeys 200] axisStart) = 2
   \<and> checkpoints (run pod1 sprint [timed throttleKeys 100, timed throttleKeys 200] axisStart)
       = [True, True, False, False]
   \<and> checkpoints (runGameLoop pod1 sprint OFF noRandom (atTime 300) (1 / 10)
        (run pod1 sprint [timed throttleKeys 100, timed throttleKeys 200] axisStart))
       = [True, True, True, False]"
proof -
  define s2 where
    "s2 = useFrame pod1 sprint (useFrame pod1 sprint axisStart (timed throttleKeys 100))
            (timed throttleKeys 200)"
  have f: "closestPointIndex sprint s2 = 2" "checkpoints s2 = [True, True, False, False]"
    unfolding s2_def by (rule sprint_run)+
  have p: "points sprint \<noteq> []" by (simp add: sprint_def)
  have "checkpoints (runGameLoop pod1 sprint OFF noRandom (atTime 300) (1 / 10) s2)
          = [True, True, True, False]"
    using checkpoint_marked_in_range [OF p, of pod1 OFF noRandom "atTime 300" "1 / 10" s2]
    by (simp add: f sprint_marks lapDone_def arrayGet_def)
  then show ?thesis
    using f p by (simp add: s2_def)
qed

text \<open>
  Claim C5 as stated fails. The spur track has five points, the last one next to the
  first. After one throttle frame the closest point is the last one, index 4; the
  second step computes section 4 and marks nothing, so quarter 3 is still unmarked.
\<close>

theorem last_point_marks_nothing:
  "initGame spur 0 = Inr axisStart
   \<and> length (points spur) = 5
   \<and> closestPointIndex spur (run pod1 spur [timed throttleKeys 100] axisStart) = 4
   \<and> checkpoints (run pod1 spur [timed throttleKeys 100] axisStart)
       = [True, False, False, False]
   \<and> checkpoints (run pod1 spur [timed throttleKeys 100, timed throttleKeys 200] axisStart)
       = [True, False, False, False]"
proof -
  define s1 where "s1 = useFrame pod1 spur axisStart (timed throttleKeys 100)"
  have c0: "car axisStart = axisCar 0 0 0 False 0 0"
    by (simp add: axisStart_def)
  have i0: "closestPointIndex spur axisStart = 0" "\<not> leftTrack spur axisStart"
    by (simp_all add: c0 probe_defs spur_def)
  have c1: "car s1 = axisCar (144 / 125) (24 / 125) (12 / 5) False 0 0"
    unfolding s1_def using throttle_step [OF c0 _ i0(2), of 100] by simp
  have i1: "closestPointIndex spur s1 = 4"
    by (simp add: c1 probe_defs spur_def)
  have m: "markCheckpoint spur 0 [False, False, False, False] = [True, False, False, False]"
    "markCheckpoint spur 4 [True, False, False, False] = [True, False, False, False]"
    by (simp_all add: markCheckpoint_def currentSection_def checkpointZone_def spur_def
        arraySet_def)
  have f0: "checkpoints axisStart = [False, False, False, False]"
    by (simp add: axisStart_def)
  have f1: "checkpoints s1 = [True, False, False, False]"
    unfolding s1_def
    by (simp add: useFrame_fields runGameLoop_checkpoints i0 f0 m lapDone_def arrayGet_def)
  have f2: "checkpoints (useFrame pod1 spur s1 (timed throttleKeys 200))
              = [True, False, False, False]"
    by (simp add: useFrame_fields runGameLoop_checkpoints i1 f1 m lapDone_def arrayGet_def)
  show ?thesis
    using i1 f1 f2 by (simp add: spur_setup s1_def) (simp add: spur_def)
qed

section \<open>Session statistics\<close>

lemma foldl_min_Some:
  "foldl (\<lambda>acc v. case acc of None \<Rightarrow> Some v | Some a \<Rightarrow> Some (min a v)) (Some a) xs
     = Some (Min (insert a (set xs)))"
proof (induction xs arbitrary: a)
  case Nil
  then show ?case by simp
next
  case (Cons x xs)
  have "Min (insert (min a x) (set xs)) = Min (insert a (insert x (set xs)))"
    by (cases "set xs = {}") (simp_all add: min.assoc)
  then show ?case by (simp add: Cons.IH)
qed

lemma mathMin_Min: "xs \<noteq> [] \<Longrightarrow> mathMin xs = Some (Min (set xs))"
  by (cases xs) (simp_all add: mathMin_def foldl_min_Some)

lemma useFrame_laps_length:
  assumes "laps s = int (length (telemetry s))"
  shows "laps (useFrame cfg track s f) = int (length (telemetry (useFrame cfg track s f)))"
  using assms by (simp add: useFrame_fields runGameLoop_lap runGameLoop_laps)

lemma run_laps_length:
  assumes "laps s = int (length (telemetry s))"
  shows "laps (run cfg track fs s) = int (length (telemetry (run cfg track fs s)))"
  using assms
proof (induction fs arbitrary: s)
  case Nil
  then show ?case by simp
next
  case (Cons f fs)
  show ?case
    using Cons.IH [OF useFrame_laps_length [OF Cons.prems]] by simp
qed

text \<open>
  Claim C6. The statistics returned at the end of a session carry the recorded lap
  records unchanged, the number of records as the lap total, and as best lap the
  minimum of their times, or no value when there is no record. A session that ends
  before any lap completes therefore returns a lap total of 0, no best lap and an
  empty telemetry sequence.
\<close>

theorem session_stats:
  assumes "initGame track now = Inr s0"
  shows "bestLap (finishRace stamp (run cfg track fs s0)) =
           (if telemetry (run cfg track fs s0) = [] then None
            else Some (Min (set (map time (telemetry (run cfg track fs s0))))))
       \<and> st_telemetry (finishRace stamp (run cfg track fs s0)) = telemetry (run cfg track fs s0)
       \<and> totalLaps (finishRace stamp (run cfg track fs s0)) =
           int (length (telemetry (run cfg track fs s0)))"
proof -
  have "laps (run cfg track fs s0) = int (length (telemetry (run cfg track fs s0)))"
    using run_laps_length [of s0 cfg track fs] initGame_fields [OF assms] by simp
  then show ?thesis
    by (simp add: finishRace_def mathMin_Min)
qed

text \<open>
  The theorem on the four-point track: the sprint records one lap of 0.4 seconds, which
  is the best lap; the session ended at once has no lap and no best lap.
\<close>

theorem session_stats_witness:
  "initGame sprint 0 = Inr axisStart
   \<and> bestLap (finishRace ''stamp'' (run pod1 sprint sprintFrames axisStart)) = Some (2 / 5)
   \<and> totalLaps (finishRace ''stamp'' (run pod1 sprint sprintFrames axisStart)) = 1
   \<and> bestLap (finishRace ''stamp'' (run pod1 sprint [] axisStart)) = None
   \<and> totalLaps (finishRace ''stamp'' (run pod1 sprint [] axisStart)) = 0
   \<and> st_telemetry (finishRace ''stamp'' (run pod1 sprint [] axisStart)) = []"
proof -
  let ?t = "telemetry (run pod1 sprint sprintFrames axisStart)"
  have "length (map time ?t) = 1"
    by (simp only: sprint_lap) simp
  then have l: "length ?t = 1" "?t \<noteq> []" by auto
  have m: "set (map time ?t) = {2 / 5}"
    by (simp only: sprint_lap) simp
  have e: "telemetry (run pod1 sprint [] axisStart) = []"
    by (simp add: axisStart_def)
  show ?thesis
    using session_stats [OF sprint_setup, of "''stamp''" pod1 sprintFrames]
      session_stats [OF sprint_setup, of "''stamp''" pod1 "[]"] l m e sprint_setup
    by simp
qed

section \<open>Session setup\<close>

lemma initGame_accepts:
  "isl (initGame track now) = (points track = [])"
  "(initGame track now = Inl TypeError) = (points track = [])"
  by (auto simp: initGame_def Let_def split: list.splits)

lemma lookAhead_in_range:
  "closestPointIndex track s = - 1
   \<or> nat ((closestPointIndex track s + k) mod int (length (points track)))
       < length (points track)"
proof (cases "points track = []")
  case True
  then show ?thesis by (simp add: closestPoint_empty)
next
  case False
  then have "0 < int (length (points track))" by simp
  then have "0 \<le> (closestPointIndex track s + k) mod int (length (points track))"
    "(closestPointIndex track s + k) mod int (length (points track))
       < int (length (points track))"
    by (simp_all only: pos_mod_sign pos_mod_bound)
  then show ?thesis by linarith
qed

text \<open>
  Claim C7, as amended. Mounting the race view on a track of fewer than two points
  fails at setup, before any step runs, but with a \<^verbatim>\<open>TypeError\<close> and not with a
  configuration error: on a track without points the initial state fails to read the
  first point; on a track of one point the initial state is built, with a substitute
  second point, and the track visuals fail to read the second point. The width is
  never tested: a track of two or more points mounts whatever its width, zero and
  negative widths included, unless the 3D library raises a fault of its own, and
  the state it mounts in does not depend on the width. No step of the simulation
  raises a fault: a step is a total function of the state, and the one place where
  it reads a track point at a computed index, the look-ahead point of the controller,
  is reached only when a closest point was found, and then the index is within the
  track.
\<close>

theorem setup_needs_two_points:
  "mountRace geometry track now =
     (if points track = [] then Inl TypeError
      else case geometry track of
             Some e \<Rightarrow> Inl e
           | None \<Rightarrow> if length (points track) < 2 then Inl TypeError
                     else initGame track now)
   \<and> isl (initGame track now) = (points track = [])
   \<and> (if length (points track) < 2 then isl (mountRace geometry track now)
       else isl (mountRace geometry track now) = (geometry track \<noteq> None))
   \<and> initGame (track\<lparr>width := w\<rparr>) now = initGame track now
   \<and> (closestPointIndex track s = - 1
      \<or> nat ((closestPointIndex track s + k) mod int (length (points track)))
          < length (points track))"
proof -
  have m: "mountRace geometry track now =
     (if points track = [] then Inl TypeError
      else case geometry track of
             Some e \<Rightarrow> Inl e
           | None \<Rightarrow> if length (points track) < 2 then Inl TypeError
                     else initGame track now)"
  proof (cases "points track")
    case Nil
    then show ?thesis by (simp add: mountRace_def initGame_def)
  next
    case (Cons p0 rest)
    then obtain s where s: "initGame track now = Inr s"
      using initGame_accepts(1) [of track now] by (cases "initGame track now") auto
    show ?thesis
      using Cons
      by (cases rest; cases "geometry track") (simp_all add: mountRace_def trackVisuals_def s)
  qed
  have i: "isl (initGame track now) = (points track = [])"
    by (rule initGame_accepts)
  have l: "(if length (points track) < 2 then isl (mountRace geometry track now)
            else isl (mountRace geometry track now) = (geometry track \<noteq> None))"
  proof (cases "points track = []")
    case True
    then show ?thesis by (simp add: m)
  next
    case False
    then have "\<not> isl (initGame track now)" by (simp add: i)
    then show ?thesis
      using False by (cases "geometry track") (simp_all add: m)
  qed
  have b: "initGame (track\<lparr>width := w\<rparr>) now = initGame track now"
    by (simp add: initGame_def)
  show ?thesis using m i l b lookAhead_in_range [of track s k] by blast
qed

text \<open>
  The theorem with a 3D library that raises nothing: the two-point track of width 700
  mounts in the start state, the track of one point builds the start state and then
  fails in the track visuals, and the track without points fails in the initial state.
\<close>

theorem setup_needs_two_points_witness:
  "mountRace quietScene (lane 700) 0 = Inr axisStart
   \<and> length (points pointTrack) = 1
   \<and> initGame pointTrack 0 = Inr axisStart
   \<and> mountRace quietScene pointTrack 0 = Inl TypeError
   \<and> points noTrack = []
   \<and> mountRace quietScene noTrack 0 = Inl TypeError"
proof -
  have p: "initGame pointTrack 0 = Inr axisStart"
    by (simp add: pointTrack_def initGame_def axisStart_def axisCar_def noKeys_def atan2_def)
  have q: "quietScene (lane 700) = None" "quietScene pointTrack = None"
    by (simp_all add: quietScene_def)
  have n: "length (points (lane 700)) = 2" "length (points pointTrack) = 1"
    "points noTrack = []"
    by (simp_all add: lane_def pointTrack_def noTrack_def)
  show ?thesis
    using setup_needs_two_points [of quietScene "lane 700" 0]
      setup_needs_two_points [of quietScene pointTrack 0]
      setup_needs_two_points [of quietScene noTrack 0]
    by (simp add: p q n lane_setup)
qed

text \<open>
  Claim C7 as stated fails: the two-point track of width 0 mounts, with a 3D library
  that raises nothing, in the start state of every other two-point track.
\<close>

theorem width_zero_accepted:
  "length (points (lane 0)) = 2 \<and> width (lane 0) = 0
   \<and> quietScene (lane 0) = None
   \<and> initGame (lane 0) 0 = Inr axisStart
   \<and> mountRace quietScene (lane 0) 0 = Inr axisStart"
  by (simp add: lane_def quietScene_def mountRace_def trackVisuals_def initGame_def
      axisStart_def axisCar_def noKeys_def atan2_def)

section \<open>Commentary\<close>

text \<open>
  Claim C8. When the text generator throws, or answers with undefined or empty text,
  the analysis still resolves, to a fixed string: the radio-down message after a throw
  and the no-data message after an answer without text. The commentary component
  stores that string without raising its error flag, and the application still holds
  the statistics of the session.
\<close>

theorem summarizer_failure_falls_back:
  assumes "generateContent (prompt stats) = GenThrows
         \<or> generateContent (prompt stats) = GenResponse None
         \<or> generateContent (prompt stats) = GenResponse (Some [])"
  shows "analyzeRacePerformance prompt generateContent stats =
           Inr (if generateContent (prompt stats) = GenThrows then fallbackRadioDown
                else fallbackNoData)
       \<and> analysisView prompt generateContent (handleRaceEnd stats a) cc =
           (handleRaceEnd stats a,
            cc\<lparr>cc_loading := False,
               cc_analysis := (if generateContent (prompt stats) = GenThrows
                               then fallbackRadioDown else fallbackNoData)\<rparr>)
       \<and> lastSessionStats (handleRaceEnd stats a) = Some stats"
proof -
  have r: "analyzeRacePerformance prompt generateContent stats =
           Inr (if generateContent (prompt stats) = GenThrows then fallbackRadioDown
                else fallbackNoData)"
    using assms by (auto simp: analyzeRacePerformance_def tryAnalysis_def textOr_def)
  show ?thesis
    by (simp add: r analysisView_def fetchAnalysis_def handleRaceEnd_def)
qed

text \<open>
  The theorem for a generator that throws and for one that answers without text, on
  the statistics of a session without laps.
\<close>

theorem summarizer_failure_falls_back_witness:
  "failingService (plainPrompt noLaps) = GenThrows
   \<and> analyzeRacePerformance plainPrompt failingService noLaps = Inr fallbackRadioDown
   \<and> silentService (plainPrompt noLaps) = GenResponse None
   \<and> analyzeRacePerformance plainPrompt silentService noLaps = Inr fallbackNoData
   \<and> snd (analysisView plainPrompt failingService (handleRaceEnd noLaps menu) idle) =
       \<lparr>cc_analysis = fallbackRadioDown, cc_loading = False, cc_error = False\<rparr>
   \<and> lastSessionStats (fst (analysisView plainPrompt failingService
        (handleRaceEnd noLaps menu) idle)) = Some noLaps"
proof -
  have f: "failingService (plainPrompt noLaps) = GenThrows"
    by (simp add: failingService_def)
  have g: "silentService (plainPrompt noLaps) = GenResponse None"
    by (simp add: silentService_def)
  show ?thesis
    using f g
      summarizer_failure_falls_back [of failingService plainPrompt noLaps menu idle]
      summarizer_failure_falls_back [of silentService plainPrompt noLaps menu idle]
    by (simp add: idle_def)
qed

section \<open>Effects\<close>

lemma view_effects: "simView (effects dt rnd s) = simView s"
  by (simp add: simView_def)

lemma view_update:
  assumes "simView a = simView b"
  shows "simView (a\<lparr>keys := k, car := c\<rparr>) = simView (b\<lparr>keys := k, car := c\<rparr>)"
  using assms by (simp add: simView_def)

lemma view_offTrack:
  assumes "simView a = simView b"
  shows "simView (offTrack off a) = simView (offTrack off b)"
  using assms by (simp add: simView_def offTrack_def)

lemma view_lapsStep:
  assumes "simView a = simView b"
  shows "simView (lapsStep track i clock a) = simView (lapsStep track i clock b)"
  using assms by (simp add: simView_def lapsStep_def Let_def)

lemma view_trackMaxSpeed:
  assumes "simView a = simView b"
  shows "simView (trackMaxSpeed a) = simView (trackMaxSpeed b)"
  using assms by (simp add: simView_def trackMaxSpeed_def Let_def)

lemma view_inputs:
  assumes "simView a = simView b"
  shows "closestPointIndex track a = closestPointIndex track b"
    "heldKeys cfg track ai a = heldKeys cfg track ai b"
    "moved cfg track ai dt a = moved cfg track ai dt b"
    "leftTrack track a = leftTrack track b"
  using assms
  by (simp_all add: simView_def closestPointIndex_def heldKeys_def moved_def arbitrated_def
      leftTrack_def)

text \<open>
  Claim C9. Two steps on the same track with the same pod, controller mode, clock and
  time step, from states that agree on the car, the keys, the lap count, the lap start
  time, the checkpoints, the lap records and the running lap figures, end in states
  that agree on all of these, whatever the particles, the skid marks, the particle
  counter and the random numbers of the two steps are.
\<close>

theorem effects_never_feed_back:
  assumes "simView s1 = simView s2"
  shows "simView (runGameLoop cfg track ai rnd1 clock dt s1) =
         simView (runGameLoop cfg track ai rnd2 clock dt s2)"
proof -
  let ?k = "heldKeys cfg track ai s1" and ?c = "moved cfg track ai dt s1"
  let ?a = "offTrack (leftTrack track s1) (s1\<lparr>keys := ?k, car := ?c\<rparr>)"
  let ?b = "offTrack (leftTrack track s1) (s2\<lparr>keys := ?k, car := ?c\<rparr>)"
  have "simView ?a = simView ?b"
    by (intro view_offTrack view_update assms)
  then have "simView (effects dt rnd1 ?a) = simView (effects dt rnd2 ?b)"
    by (simp add: view_effects)
  then have "simView (trackMaxSpeed (lapsStep track (closestPointIndex track s1) clock
                 (effects dt rnd1 ?a))) =
             simView (trackMaxSpeed (lapsStep track (closestPointIndex track s1) clock
                 (effects dt rnd2 ?b)))"
    by (intro view_trackMaxSpeed view_lapsStep)
  then show ?thesis
    by (simp add: runGameLoop_phases view_inputs [OF assms, symmetric])
qed

text \<open>
  The theorem for the start state with and without a spark and a skid mark, under
  two different sources of random numbers.
\<close>

theorem effects_never_feed_back_witness:
  "simView axisStart = simView litStart
   \<and> particles axisStart \<noteq> particles litStart
   \<and> skidMarks axisStart \<noteq> skidMarks litStart
   \<and> simView (runGameLoop pod1 sprint OFF noRandom (atTime 100) (1 / 10) axisStart) =
       simView (runGameLoop pod1 sprint OFF halfRandom (atTime 100) (1 / 10) litStart)"
proof -
  have v: "simView axisStart = simView litStart"
    by (simp add: simView_def litStart_def)
  have "particles axisStart \<noteq> particles litStart" "skidMarks axisStart \<noteq> skidMarks litStart"
    by (simp_all add: litStart_def axisStart_def)
  then show ?thesis
    using v effects_never_feed_back [OF v, of pod1 sprint OFF noRandom "atTime 100" "1 / 10"
        halfRandom]
    by simp
qed

section \<open>Collisions\<close>

lemma useFrame_collisions:
  assumes "ct_collisions (currentTelemetry s) = 0" "\<forall>t \<in> set (telemetry s). collisions t = 0"
  shows "ct_collisions (currentTelemetry (useFrame cfg track s f)) = 0
       \<and> (\<forall>t \<in> set (telemetry (useFrame cfg track s f)). collisions t = 0)"
  using assms by (simp add: useFrame_fields runGameLoop_lap runGameLoop_laps)

lemma run_collisions:
  assumes "ct_collisions (currentTelemetry s) = 0" "\<forall>t \<in> set (telemetry s). collisions t = 0"
  shows "ct_collisions (currentTelemetry (run cfg track fs s)) = 0
       \<and> (\<forall>t \<in> set (telemetry (run cfg track fs s)). collisions t = 0)"
  using assms
proof (induction fs arbitrary: s)
  case Nil
  then show ?case by simp
next
  case (Cons f fs)
  show ?case
    using Cons.IH [of "useFrame cfg track s f"] useFrame_collisions [OF Cons.prems]
    by simp
qed

text \<open>
  Claim C10. In every session the collision counter of the running lap is 0 after any
  number of steps, every recorded lap has 0 collisions, and a step that appends a lap
  record writes the counter divided by 10, rounded down, into it.
\<close>

theorem collisions_always_zero:
  assumes "initGame track now = Inr s0"
  shows "ct_collisions (currentTelemetry (run cfg track fs s0)) = 0
       \<and> (\<forall>t \<in> set (telemetry (run cfg track fs s0)). collisions t = 0)
       \<and> (telemetry (useFrame cfg track (run cfg track fs s0) f) =
             telemetry (run cfg track fs s0)
          \<or> (length (telemetry (useFrame cfg track (run cfg track fs s0) f)) =
                length (telemetry (run cfg track fs s0)) + 1
             \<and> collisions (last (telemetry (useFrame cfg track (run cfg track fs s0) f))) =
                 ct_collisions (currentTelemetry (run cfg track fs s0)) div 10))"
proof -
  have "ct_collisions (currentTelemetry (run cfg track fs s0)) = 0
       \<and> (\<forall>t \<in> set (telemetry (run cfg track fs s0)). collisions t = 0)"
    using run_collisions [of s0 cfg track fs] initGame_fields [OF assms] by simp
  then show ?thesis
    by (simp add: useFrame_fields runGameLoop_lap)
qed

text \<open>
  The theorem for the sprint on the four-point track, which records one lap.
\<close>

theorem collisions_always_zero_witness:
  "initGame sprint 0 = Inr axisStart
   \<and> length (telemetry (run pod1 sprint sprintFrames axisStart)) = 1
   \<and> collisions (hd (telemetry (run pod1 sprint sprintFrames axisStart))) = 0
   \<and> ct_collisions (currentTelemetry (run pod1 sprint sprintFrames axisStart)) = 0"
proof -
  let ?t = "telemetry (run pod1 sprint sprintFrames axisStart)"
  have "length (map time ?t) = 1"
    by (simp only: sprint_lap) simp
  then have l: "length ?t = 1" by simp
  then have "hd ?t \<in> set ?t"
    by (cases ?t) simp_all
  then show ?thesis
    using l sprint_setup
      collisions_always_zero [OF sprint_setup, of pod1 sprintFrames "timed throttleKeys 500"]
    by blast
qed

end
